theory Spec2Isabelle
  imports Complex_Main "HOL-Library.AList"
begin

section \<open>A Redis-compatible server: the command handler of app/handler.py\<close>

text \<open>
  The development embeds \<^verbatim>\<open>RedisCommandHandler\<close> (src/app/handler.py). The handler
  object is a record that every method takes and returns; a Python exception is a value
  of the type \<open>exn\<close>; effects on the outside world (the frames handed to the connection
  registry, the calls of \<^verbatim>\<open>Database.set\<close>) are appended to a log in program order.
  The modules \<^verbatim>\<open>app.serialiser\<close>, \<^verbatim>\<open>app.database\<close> and
  \<^verbatim>\<open>app.connection_registry\<close> are not part of the sources at hand; the
  definitions that stand for them are marked as modelled from the specification.

  The coroutines of the handler are modelled sequentially. A call runs without
  interruption except where it sleeps (\<^verbatim>\<open>asyncio.sleep\<close> in \<^verbatim>\<open>xread\<close> and
  \<^verbatim>\<open>wait\<close>): there the next tick of a schedule says what the clocks show afterwards
  and what other connections have done to the keyspace and to the acknowledged offsets
  meanwhile. The clock of the event loop, a float in Python, is a rational number.
  Strings are lists of bytes.
\<close>

subsection \<open>Python values and exceptions\<close>

datatype exn =
    RedisException string
  | IndexError
  | ValueError
  | KeyError
  | TypeError
  | AttributeError
  | RecursionError
  | UnboundLocalError
  | ProtocolError
  | NotModelled

text \<open>
  The result of a call: it returns a value, raises, or has not returned when the schedule
  of the outside world (the field \<open>future\<close> below) ends: \<open>Pending\<close>.
\<close>

datatype 'a outcome = Return 'a | Raise exn | Pending

definition CRLF :: string where
  "CRLF = [CHR 0x0D, CHR 0x0A]"

definition is_upper :: "char \<Rightarrow> bool" where
  "is_upper c = (65 \<le> (of_char c :: nat) \<and> (of_char c :: nat) \<le> 90)"

text \<open>\<^verbatim>\<open>str.lower()\<close> on the ASCII range: an upper-case letter gets bit 5 set.\<close>

fun lower_char :: "char \<Rightarrow> char" where
  "lower_char (Char b0 b1 b2 b3 b4 b5 b6 b7) =
     (if is_upper (Char b0 b1 b2 b3 b4 b5 b6 b7) then Char b0 b1 b2 b3 b4 True b6 b7
      else Char b0 b1 b2 b3 b4 b5 b6 b7)"

definition lower :: "string \<Rightarrow> string" where
  "lower s = map lower_char s"

text \<open>Python's \<^verbatim>\<open>xs[i]\<close> for \<open>0 \<le> i\<close>: IndexError out of range.\<close>

definition idx :: "'a list \<Rightarrow> nat \<Rightarrow> 'a outcome" where
  "idx xs i = (if i < length xs then Return (xs ! i) else Raise IndexError)"

text \<open>\<^verbatim>\<open>xs.index(x)\<close>: the first position of \<open>x\<close>, ValueError when absent.\<close>

fun index_of :: "'a list \<Rightarrow> 'a \<Rightarrow> nat option" where
  "index_of [] x = None"
| "index_of (y # ys) x = (if y = x then Some 0 else map_option Suc (index_of ys x))"

subsubsection \<open>\<^verbatim>\<open>str(n)\<close> and \<^verbatim>\<open>int(s)\<close>\<close>

definition digit_char :: "nat \<Rightarrow> char" where
  "digit_char d = ''0123456789'' ! d"

fun show_nat :: "nat \<Rightarrow> string" where
  "show_nat n = (if n < 10 then [digit_char n] else show_nat (n div 10) @ [digit_char (n mod 10)])"

declare show_nat.simps [simp del]

definition py_str :: "int \<Rightarrow> string" where
  "py_str i = (if i < 0 then CHR ''-'' # show_nat (nat (- i)) else show_nat (nat i))"

definition digit_val :: "char \<Rightarrow> nat option" where
  "digit_val c = (let n = (of_char c :: nat) in if 48 \<le> n \<and> n \<le> 57 then Some (n - 48) else None)"

fun parse_digits :: "nat \<Rightarrow> string \<Rightarrow> nat option" where
  "parse_digits acc [] = Some acc"
| "parse_digits acc (c # cs) =
     (case digit_val c of None \<Rightarrow> None | Some d \<Rightarrow> parse_digits (10 * acc + d) cs)"

definition parse_nat :: "string \<Rightarrow> nat option" where
  "parse_nat s = (if s = [] then None else parse_digits 0 s)"

definition is_space :: "char \<Rightarrow> bool" where
  "is_space c = (c \<in> set [CHR '' '', CHR 0x09, CHR 0x0A, CHR 0x0B, CHR 0x0C, CHR 0x0D])"

definition strip :: "string \<Rightarrow> string" where
  "strip s = rev (dropWhile is_space (rev (dropWhile is_space s)))"

text \<open>
  \<^verbatim>\<open>int(s)\<close> on a string: surrounding white space, an optional sign, decimal digits;
  anything else is a ValueError. (Python also accepts underscores between digits and
  non-ASCII digits; those inputs are ValueError here.)
\<close>

definition py_int :: "string \<Rightarrow> int outcome" where
  "py_int s =
     (case strip s of
        [] \<Rightarrow> Raise ValueError
      | c # cs \<Rightarrow>
          if c = CHR ''-'' then
            (case parse_nat cs of None \<Rightarrow> Raise ValueError | Some n \<Rightarrow> Return (- int n))
          else if c = CHR ''+'' then
            (case parse_nat cs of None \<Rightarrow> Raise ValueError | Some n \<Rightarrow> Return (int n))
          else
            (case parse_nat (c # cs) of None \<Rightarrow> Raise ValueError | Some n \<Rightarrow> Return (int n)))"

subsection \<open>The RESP codec (app.serialiser)\<close>

text \<open>
  A reply payload as the command functions build it: a string, an integer, None, a list,
  a caught RedisException (its message), or a stream's dictionary.
\<close>

type_synonym sid = "nat \<times> nat"

datatype pyval =
    VStr string
  | VInt int
  | VNone
  | VList "pyval list"
  | VExc string
  | VDict "(sid \<times> string list) list"

datatype rtype = SIMPLE_STRING | BULK_STRING | INTEGER | ARRAY | ERROR | ENCODED

text \<open>
  Modelled from the spec: the encoder \<^verbatim>\<open>RedisEncoder\<close> of app/serialiser.py, which is
  not among the sources. Section 4.1 of the specification gives each operation; the
  tests under src/app/tests fix the concrete frames. An array element that is a list is
  a nested array and any other element is a bulk string: of the text itself for a string,
  the null bulk string for None, and the element's \<^verbatim>\<open>str\<close> for an integer or an
  exception. A dictionary element is outside the specification's words. The definitions
  from here to \<open>encode_array\<close> stand for the encoder.
\<close>

definition encode_simple_string :: "string \<Rightarrow> string" where
  "encode_simple_string s = ''+'' @ s @ CRLF"

definition encode_error :: "string \<Rightarrow> string" where
  "encode_error s = ''-'' @ s @ CRLF"

definition encode_integer :: "int \<Rightarrow> string" where
  "encode_integer n = '':'' @ py_str n @ CRLF"

definition encode_bulk_string :: "string option \<Rightarrow> string" where
  "encode_bulk_string v =
     (case v of
        None \<Rightarrow> ''$-1'' @ CRLF
      | Some s \<Rightarrow> ''$'' @ show_nat (length s) @ CRLF @ s @ CRLF)"

definition encode_file :: "string \<Rightarrow> string" where
  "encode_file b = ''$'' @ show_nat (length b) @ CRLF @ b"

fun encode_element :: "pyval \<Rightarrow> string option" where
  "encode_element (VStr s) = Some (encode_bulk_string (Some s))"
| "encode_element (VInt n) = Some (encode_bulk_string (Some (py_str n)))"
| "encode_element VNone = Some (encode_bulk_string None)"
| "encode_element (VExc m) = Some (encode_bulk_string (Some m))"
| "encode_element (VDict d) = None"
| "encode_element (VList xs) =
     (if list_all (\<lambda>x. encode_element x \<noteq> None) xs
      then Some (''*'' @ show_nat (length xs) @ CRLF @ concat (map (\<lambda>x. the (encode_element x)) xs))
      else None)"

definition encode_array :: "pyval list \<Rightarrow> string option" where
  "encode_array xs = encode_element (VList xs)"

text \<open>A decoded RESP value: a string, an integer, None or a list.\<close>

datatype resp = RStr string | RInt int | RNull | RArr "resp list"

fun take_line :: "string \<Rightarrow> (string \<times> string) option" where
  "take_line [] = None"
| "take_line [c] = None"
| "take_line (c # d # cs) =
     (if c = CHR 0x0D \<and> d = CHR 0x0A then Some ([], cs)
      else (case take_line (d # cs) of None \<Rightarrow> None | Some (l, r) \<Rightarrow> Some (c # l, r)))"

text \<open>
  Modelled from the spec: the decoder \<^verbatim>\<open>RedisDecoder\<close> of app/serialiser.py, which is
  not among the sources. It parses one top-level value (simple string, error, integer,
  bulk string, array) and reports how many bytes it consumed; a malformed prefix, a
  declared length that does not fit the body, or truncated input is a ProtocolError.
  The first argument bounds the nesting depth; the length of the input is always enough.
  The definitions from \<open>take_line\<close> to \<open>multi_command_decoder\<close> stand for the decoder.
\<close>

fun decode_value :: "nat \<Rightarrow> string \<Rightarrow> (resp \<times> string) option"
  and decode_items :: "nat \<Rightarrow> nat \<Rightarrow> string \<Rightarrow> (resp list \<times> string) option" where
  "decode_value 0 s = None"
| "decode_value (Suc f) [] = None"
| "decode_value (Suc f) (c # cs) =
     (case take_line cs of
        None \<Rightarrow> None
      | Some (l, r) \<Rightarrow>
          if c = CHR ''+'' \<or> c = CHR ''-'' then Some (RStr l, r)
          else if c = CHR '':'' then
            (case py_int l of Return n \<Rightarrow> Some (RInt n, r) | _ \<Rightarrow> None)
          else if c = CHR ''$'' then
            (case py_int l of
               Return n \<Rightarrow>
                 if n = - 1 then Some (RNull, r)
                 else if n < 0 then None
                 else if take 2 (drop (nat n) r) = CRLF \<and> nat n \<le> length r
                 then Some (RStr (take (nat n) r), drop (nat n + 2) r)
                 else None
             | _ \<Rightarrow> None)
          else if c = CHR ''*'' then
            (case py_int l of
               Return n \<Rightarrow>
                 if n < 0 then None
                 else (case decode_items f (nat n) r of
                         None \<Rightarrow> None
                       | Some (xs, r') \<Rightarrow> Some (RArr xs, r'))
             | _ \<Rightarrow> None)
          else None)"
| "decode_items f 0 s = Some ([], s)"
| "decode_items f (Suc k) s =
     (case decode_value f s of
        None \<Rightarrow> None
      | Some (x, r) \<Rightarrow>
          (case decode_items f k r of
             None \<Rightarrow> None
           | Some (xs, r') \<Rightarrow> Some (x # xs, r')))"

text \<open>\<^verbatim>\<open>RedisDecoder().decode(data)\<close> with \<^verbatim>\<open>bytes_processed\<close>.\<close>

definition decode :: "string \<Rightarrow> (resp \<times> nat) outcome" where
  "decode s =
     (case decode_value (length s) s of
        None \<Rightarrow> Raise ProtocolError
      | Some (v, r) \<Rightarrow> Return (v, length s - length r))"

text \<open>
  \<^verbatim>\<open>multi_command_decoder\<close>: the top-level values of a buffer, one after the other, each
  with its byte length, until the buffer is exhausted.
\<close>

fun multi_decode :: "nat \<Rightarrow> string \<Rightarrow> (resp \<times> nat) list outcome" where
  "multi_decode 0 s = (if s = [] then Return [] else Raise ProtocolError)"
| "multi_decode (Suc f) s =
     (if s = [] then Return []
      else (case decode_value (length s) s of
              None \<Rightarrow> Raise ProtocolError
            | Some (v, r) \<Rightarrow>
                (case multi_decode f r of
                   Return rest \<Rightarrow> Return ((v, length s - length r) # rest)
                 | Raise e \<Rightarrow> Raise e
                 | Pending \<Rightarrow> Pending)))"

definition multi_command_decoder :: "string \<Rightarrow> (resp \<times> nat) list outcome" where
  "multi_command_decoder s = multi_decode (length s) s"

subsection \<open>The keyspace (app.database)\<close>

text \<open>
  Modelled from the spec: the module app/database.py (the class \<^verbatim>\<open>Database\<close>), which is
  not among the sources. Every definition of this subsection follows sections 3 and 4.2
  of the specification: the stream identifiers with their order and their text form,
  the values, the keyspace and its operations.

  A stream identifier is the pair \<open>(ms, seq)\<close>, ordered lexicographically, and is
  written \<^verbatim>\<open>ms-seq\<close>.
\<close>

definition sid_le :: "sid \<Rightarrow> sid \<Rightarrow> bool" where
  "sid_le a b = (fst a < fst b \<or> (fst a = fst b \<and> snd a \<le> snd b))"

definition sid_less :: "sid \<Rightarrow> sid \<Rightarrow> bool" where
  "sid_less a b = (fst a < fst b \<or> (fst a = fst b \<and> snd a < snd b))"

definition show_sid :: "sid \<Rightarrow> string" where
  "show_sid i = show_nat (fst i) @ ''-'' @ show_nat (snd i)"

fun split_dash :: "string \<Rightarrow> (string \<times> string) option" where
  "split_dash [] = None"
| "split_dash (c # cs) =
     (if c = CHR ''-'' then Some ([], cs)
      else (case split_dash cs of None \<Rightarrow> None | Some (l, r) \<Rightarrow> Some (c # l, r)))"

definition parse_sid :: "string \<Rightarrow> sid option" where
  "parse_sid s =
     (case split_dash s of
        None \<Rightarrow> None
      | Some (m, q) \<Rightarrow>
          (case parse_nat m of
             None \<Rightarrow> None
           | Some ms \<Rightarrow> (case parse_nat q of None \<Rightarrow> None | Some sq \<Rightarrow> Some (ms, sq))))"

definition U64_MAX :: nat where
  "U64_MAX = 18446744073709551615"

text \<open>
  Modelled from the spec: the data of the class \<^verbatim>\<open>Database\<close>.
  Following section 3 of the specification, a value is a string or a
  stream, a stream is an ordered map from stream identifiers to field lists (kept here in
  insertion order, which is ascending order of identifiers), and a key may carry an
  absolute expiry instant. The handler reads the attribute \<^verbatim>\<open>data\<close> of the database
  directly (\<^verbatim>\<open>self.db.data[stream_key].keys()\<close>), so \<open>data\<close> maps a key to its value and
  the expiry instants are kept beside it. Instants are microseconds of the wall clock.
\<close>

datatype val = Str string | Stream "(sid \<times> string list) list"

record database =
  data :: "(string \<times> val) list"
  expiry :: "(string \<times> int) list"

definition db_set :: "string \<Rightarrow> string \<Rightarrow> int option \<Rightarrow> database \<Rightarrow> database" where
  "db_set key v expires_at d =
     d\<lparr>data := AList.update key (Str v) (data d),
       expiry := (case expires_at of
                    None \<Rightarrow> AList.delete key (expiry d)
                  | Some t \<Rightarrow> AList.update key t (expiry d))\<rparr>"

definition expired :: "int \<Rightarrow> database \<Rightarrow> string \<Rightarrow> bool" where
  "expired now d key = (case map_of (expiry d) key of None \<Rightarrow> False | Some t \<Rightarrow> t \<le> now)"

text \<open>
  \<^verbatim>\<open>get\<close>: absent covers missing and expired entries; reading an expired entry removes
  it. The handler's \<^verbatim>\<open>type\<close> tests the result with \<^verbatim>\<open>isinstance(value, dict)\<close>, so a
  stream is returned as it is stored.
\<close>

definition db_get :: "int \<Rightarrow> string \<Rightarrow> database \<Rightarrow> val option \<times> database" where
  "db_get now key d =
     (if expired now d key
      then (None, d\<lparr>data := AList.delete key (data d), expiry := AList.delete key (expiry d)\<rparr>)
      else (map_of (data d) key, d))"

text \<open>Iterating over the database: the keys that have not expired.\<close>

definition db_iter :: "int \<Rightarrow> database \<Rightarrow> string list" where
  "db_iter now d = filter (\<lambda>k. \<not> expired now d k) (map fst (data d))"

datatype 'a db_result = DbOk 'a | DbException string | DbRaise exn

definition stream_top :: "(sid \<times> string list) list \<Rightarrow> sid option" where
  "stream_top es = (if es = [] then None else Some (fst (last es)))"

text \<open>The resolution of the identifier argument of \<^verbatim>\<open>add_stream\<close> (section 4.2).\<close>

definition resolve_id :: "nat \<Rightarrow> sid option \<Rightarrow> string \<Rightarrow> sid option" where
  "resolve_id now_ms tp spec =
     (if spec = ''*'' then
        (case tp of
           None \<Rightarrow> Some (now_ms, 0)
         | Some (tm, ts) \<Rightarrow> if tm < now_ms then Some (now_ms, 0) else Some (tm, ts + 1))
      else
        (case split_dash spec of
           None \<Rightarrow> None
         | Some (m, q) \<Rightarrow>
             (case parse_nat m of
                None \<Rightarrow> None
              | Some ms \<Rightarrow>
                  if q = ''*'' then
                    (let sq = (case tp of
                                 None \<Rightarrow> 0
                               | Some (tm, ts) \<Rightarrow> if tm = ms then ts + 1 else 0)
                     in Some (if ms = 0 \<and> sq = 0 then (0, 1) else (ms, sq)))
                  else (case parse_nat q of None \<Rightarrow> None | Some sq \<Rightarrow> Some (ms, sq)))))"

definition add_stream ::
    "nat \<Rightarrow> string \<Rightarrow> string \<Rightarrow> string list \<Rightarrow> database \<Rightarrow> (string \<times> database) db_result" where
  "add_stream now_ms key spec pairs d =
     (case map_of (data d) key of
        Some (Str v) \<Rightarrow> DbRaise NotModelled
      | other \<Rightarrow>
          (let es = (case other of Some (Stream xs) \<Rightarrow> xs | _ \<Rightarrow> []) in
           case resolve_id now_ms (stream_top es) spec of
             None \<Rightarrow> DbRaise ValueError
           | Some i \<Rightarrow>
               if sid_le i (0, 0) then DbException ''small-first''
               else if (case stream_top es of None \<Rightarrow> False | Some t \<Rightarrow> sid_le i t)
               then DbException ''small-top''
               else DbOk (show_sid i,
                          d\<lparr>data := AList.update key (Stream (es @ [(i, pairs)])) (data d)\<rparr>)))"

datatype bound = Incl sid | Excl sid

definition parse_start_id :: "string \<Rightarrow> sid option" where
  "parse_start_id s =
     (if s = ''-'' then Some (0, 0)
      else if s = ''+'' then Some (U64_MAX, U64_MAX)
      else (case parse_nat s of
              Some n \<Rightarrow> Some (n, 0)
            | None \<Rightarrow> parse_sid s))"

definition parse_start :: "string \<Rightarrow> bound option" where
  "parse_start s =
     (case s of
        [] \<Rightarrow> None
      | c # cs \<Rightarrow>
          if c = CHR ''('' then map_option Excl (parse_start_id cs)
          else map_option Incl (parse_start_id s))"

definition parse_end :: "string \<Rightarrow> sid option" where
  "parse_end s =
     (if s = ''-'' then Some (0, 0)
      else if s = ''+'' then Some (U64_MAX, U64_MAX)
      else (case parse_nat s of
              Some n \<Rightarrow> Some (n, U64_MAX)
            | None \<Rightarrow> parse_sid s))"

definition above :: "bound \<Rightarrow> sid \<Rightarrow> bool" where
  "above b i = (case b of Incl lo \<Rightarrow> sid_le lo i | Excl lo \<Rightarrow> sid_less lo i)"

definition entry_val :: "sid \<times> string list \<Rightarrow> pyval" where
  "entry_val e = VList [VStr (show_sid (fst e)), VList (map VStr (snd e))]"

text \<open>
  \<^verbatim>\<open>get_range_stream(key, start, end=None)\<close>: the entries within the bounds, each as
  \<^verbatim>\<open>[id, [f1, v1, ...]]\<close>. The specification does not say what a missing key or a key
  that holds a string gives; no entries here. A bound that does not parse is a
  ValueError.
\<close>

definition get_range_stream ::
    "database \<Rightarrow> string \<Rightarrow> string \<Rightarrow> string option \<Rightarrow> pyval list outcome" where
  "get_range_stream d key start_id end_id =
     (case parse_start start_id of
        None \<Rightarrow> Raise ValueError
      | Some lo \<Rightarrow>
          (case (case end_id of None \<Rightarrow> Some None | Some e \<Rightarrow> map_option Some (parse_end e)) of
             None \<Rightarrow> Raise ValueError
           | Some hi \<Rightarrow>
               (case map_of (data d) key of
                  Some (Stream es) \<Rightarrow>
                    Return (map entry_val
                      (filter (\<lambda>e. above lo (fst e) \<and>
                                  (case hi of None \<Rightarrow> True | Some h \<Rightarrow> sid_le (fst e) h)) es))
                | _ \<Rightarrow> Return [])))"

subsection \<open>The connection registry (app.connection_registry)\<close>

text \<open>
  Modelled from the spec: the class \<^verbatim>\<open>ConnectionRegistry\<close> of
  app/connection_registry.py, which is not among the sources. A replica record holds the
  writer handle, the replication id and the acknowledged offset (section 3); \<open>wire\<close> is
  what has been written to the writer so far. Socket failures are not modelled: every
  write succeeds.
\<close>

record replica_rec =
  writer :: "nat option"
  repl_id :: "string option"
  acked_offset :: "int option"
  wire :: "string list"

definition add_replica ::
    "nat option \<Rightarrow> string option \<Rightarrow> int option \<Rightarrow> replica_rec list \<Rightarrow> replica_rec list" where
  "add_replica w rid off reg =
     reg @ [\<lparr>writer = w, repl_id = rid, acked_offset = off, wire = []\<rparr>]"

definition broadcast :: "string \<Rightarrow> replica_rec list \<Rightarrow> replica_rec list" where
  "broadcast bytes reg = map (\<lambda>r. r\<lparr>wire := wire r @ [bytes]\<rparr>) reg"

definition get_replicas :: "replica_rec list \<Rightarrow> replica_rec list" where
  "get_replicas reg = reg"

text \<open>
  \<^verbatim>\<open>check_replica_sync(target)\<close> counts the records with
  \<open>acked_offset \<ge> target\<close>; comparing with None is a TypeError in Python.
\<close>

definition check_replica_sync :: "int option \<Rightarrow> replica_rec list \<Rightarrow> nat outcome" where
  "check_replica_sync target reg =
     (case target of
        None \<Rightarrow> if reg = [] then Return 0 else Raise TypeError
      | Some t \<Rightarrow>
          if list_ex (\<lambda>r. acked_offset r = None) reg then Raise TypeError
          else Return (length (filter (\<lambda>r. case acked_offset r of
                                               None \<Rightarrow> False | Some a \<Rightarrow> t \<le> a) reg)))"

definition update_replica_offset ::
    "nat option \<Rightarrow> int \<Rightarrow> replica_rec list \<Rightarrow> replica_rec list" where
  "update_replica_offset w n reg =
     map (\<lambda>r. if writer r = w then r\<lparr>acked_offset := Some n\<rparr> else r) reg"

subsection \<open>The handler object\<close>

text \<open>
  The argument a command function receives: the decoded array without its first element,
  or, when the decoded value is a plain string, that string itself
  (\<^verbatim>\<open>get_command\<close>). Where a command indexes or iterates over its argument, a string
  behaves as the list of its characters.
\<close>

datatype pyargs = ArgList "string list" | ArgStr string

fun items :: "pyargs \<Rightarrow> string list" where
  "items (ArgList xs) = xs"
| "items (ArgStr s) = map (\<lambda>c. [c]) s"

text \<open>
  The effects the handler has on its collaborators, in program order: a frame handed to
  \<^verbatim>\<open>connection_registry.broadcast\<close>, a call of \<^verbatim>\<open>db.set\<close>, an entry appended by
  \<^verbatim>\<open>db.add_stream\<close>.
\<close>

datatype event =
    Broadcast string
  | DbSet string string "int option"
  | StreamAdd string string

text \<open>
  What the rest of the process does while a command sleeps in a polling loop: the clocks
  advance, other connections change the keyspace, and acknowledgements of replicas
  arrive.
\<close>

record tick =
  t_wall :: int
  t_loop :: rat
  t_db :: database
  t_acks :: "(nat option \<times> int) list"

text \<open>
  The attributes of \<^verbatim>\<open>RedisCommandHandler\<close>, and the outside world it reads:
  \<open>environ\<close> (\<^verbatim>\<open>os.getenv\<close>), \<open>fnmatch\<close> (\<^verbatim>\<open>fnmatch.fnmatch\<close>), \<open>empty_rdb\<close>
  (\<^verbatim>\<open>base64.b64decode(EMPTY_RDB)\<close>), \<open>wall\<close> (\<^verbatim>\<open>datetime.now()\<close> in microseconds),
  \<open>loop_time\<close> (the event loop's clock in seconds, a rational number here),
  \<open>future\<close> (what happens at each coming sleep) and \<open>effects\<close>.
\<close>

record handler =
  db :: database
  connection_registry :: "replica_rec list"
  replication_id :: "string option"
  replication_offset :: "int option"
  is_replica :: bool
  bytes_processed :: int
  transaction_queue :: "(string \<times> pyargs) list option"
  environ :: "(string \<times> string) list"
  fnmatch :: "string \<Rightarrow> string \<Rightarrow> bool"
  empty_rdb :: string
  wall :: int
  loop_time :: rat
  future :: "tick list"
  effects :: "event list"

type_synonym reply = "(pyval \<times> rtype) option"

type_synonym result = "reply outcome \<times> handler"

definition truthy_env :: "(string \<times> string) list \<Rightarrow> string \<Rightarrow> bool" where
  "truthy_env env name = (case map_of env name of None \<Rightarrow> False | Some v \<Rightarrow> v \<noteq> [])"

text \<open>\<^verbatim>\<open>__init__\<close>; \<open>rid\<close> is the result of \<^verbatim>\<open>gen_random_string(40)\<close>.\<close>

definition init_handler ::
    "(string \<times> string) list \<Rightarrow> string \<Rightarrow> (string \<Rightarrow> string \<Rightarrow> bool) \<Rightarrow> string \<Rightarrow> handler" where
  "init_handler env rid glob rdb =
     \<lparr>db = \<lparr>data = [], expiry = []\<rparr>,
      connection_registry = [],
      replication_id = (if truthy_env env ''replicaof'' then None else Some rid),
      replication_offset = (if truthy_env env ''replicaof'' then None else Some 0),
      is_replica = truthy_env env ''replicaof'',
      bytes_processed = 0,
      transaction_queue = None,
      environ = env, fnmatch = glob, empty_rdb = rdb,
      wall = 0, loop_time = 0, future = [], effects = []\<rparr>"

text \<open>The end of a sleep: the world has moved on by one tick.\<close>

definition wake :: "tick \<Rightarrow> handler \<Rightarrow> handler" where
  "wake t h =
     h\<lparr>wall := t_wall t, loop_time := t_loop t, db := t_db t,
       connection_registry :=
         fold (\<lambda>a. update_replica_offset (fst a) (snd a)) (t_acks t) (connection_registry h)\<rparr>"

text \<open>
  Sequencing: an exception in a subexpression ends the method and leaves the handler as
  it is at that point.
\<close>

fun on_value :: "'a outcome \<Rightarrow> handler \<Rightarrow> ('a \<Rightarrow> 'b outcome \<times> handler) \<Rightarrow> 'b outcome \<times> handler" where
  "on_value (Return x) h k = k x"
| "on_value (Raise e) h k = (Raise e, h)"
| "on_value Pending h k = (Pending, h)"

fun and_then :: "'a outcome \<times> handler \<Rightarrow> ('a \<Rightarrow> handler \<Rightarrow> 'b outcome \<times> handler) \<Rightarrow> 'b outcome \<times> handler" where
  "and_then (Return x, h) k = k x h"
| "and_then (Raise e, h) k = (Raise e, h)"
| "and_then (Pending, h) k = (Pending, h)"

definition ret :: "pyval \<Rightarrow> rtype \<Rightarrow> handler \<Rightarrow> result" where
  "ret v t h = (Return (Some (v, t)), h)"

subsubsection \<open>The command functions\<close>

definition ping :: "handler \<Rightarrow> pyargs \<Rightarrow> result" where
  "ping h command_arr = ret (VStr ''PONG'') SIMPLE_STRING h"

definition echo :: "handler \<Rightarrow> pyargs \<Rightarrow> result" where
  "echo h args = on_value (idx (items args) 0) h (\<lambda>x. ret (VStr x) BULK_STRING h)"

text \<open>
  The loop of \<^verbatim>\<open>set\<close> over the optional arguments: \<open>rest\<close> is
  \<^verbatim>\<open>optional_args[idx+1:]\<close>, so \<^verbatim>\<open>optional_args[idx+1]\<close> is its head.
\<close>

fun set_options :: "int \<Rightarrow> string list \<Rightarrow> int option \<Rightarrow> int option outcome" where
  "set_options now [] expires_at = Return expires_at"
| "set_options now (arg # rest) expires_at =
     (if lower arg = ''px'' then
        (case rest of
           [] \<Rightarrow> Raise IndexError
         | v # _ \<Rightarrow>
             (case py_int v of
                Return n \<Rightarrow> set_options now rest (Some (now + 1000 * n))
              | Raise e \<Rightarrow> Raise e
              | Pending \<Rightarrow> Pending))
      else if lower arg = ''ex'' then
        (case rest of
           [] \<Rightarrow> Raise IndexError
         | v # _ \<Rightarrow>
             (case py_int v of
                Return n \<Rightarrow> set_options now rest (Some (now + 1000000 * n))
              | Raise e \<Rightarrow> Raise e
              | Pending \<Rightarrow> Pending))
      else set_options now rest expires_at)"

definition set_cmd :: "handler \<Rightarrow> pyargs \<Rightarrow> result" where
  "set_cmd h args =
     on_value (idx (items args) 0) h (\<lambda>key.
     on_value (idx (items args) 1) h (\<lambda>v.
     on_value (set_options (wall h) (drop 2 (items args)) None) h (\<lambda>expires_at.
       ret (VStr ''OK'') SIMPLE_STRING
         (h\<lparr>db := db_set key v expires_at (db h),
            effects := effects h @ [DbSet key v expires_at]\<rparr>))))"

definition xadd :: "handler \<Rightarrow> pyargs \<Rightarrow> result" where
  "xadd h args =
     on_value (idx (items args) 0) h (\<lambda>stream_key.
     on_value (idx (items args) 1) h (\<lambda>i.
       (case add_stream (nat (wall h div 1000)) stream_key i (drop 2 (items args)) (db h) of
          DbOk (stream_id, d) \<Rightarrow>
            ret (VStr stream_id) BULK_STRING
              (h\<lparr>db := d, effects := effects h @ [StreamAdd stream_key stream_id]\<rparr>)
        | DbException code \<Rightarrow>
            if code = ''small-top'' then
              (Raise (RedisException
                 ''The ID specified in XADD is equal or smaller than the target stream top item''), h)
            else if code = ''small-first'' then
              (Raise (RedisException ''The ID specified in XADD must be greater than 0-0''), h)
            else (Raise UnboundLocalError, h)
        | DbRaise e \<Rightarrow> (Raise e, h))))"

definition xrange :: "handler \<Rightarrow> pyargs \<Rightarrow> result" where
  "xrange h args =
     on_value (idx (items args) 0) h (\<lambda>stream.
     on_value (idx (items args) 1) h (\<lambda>start_id.
     on_value (idx (items args) 2) h (\<lambda>end_id.
     on_value (get_range_stream (db h) stream start_id (Some end_id)) h (\<lambda>es.
       ret (VList es) ARRAY h))))"

text \<open>
  \<^verbatim>\<open>xread\<close>, lines 120 to 152: the argument list is checked, lower-cased and cut at
  \<^verbatim>\<open>streams\<close>; the block time, when present, gives the deadline. \<open>Forever\<close> is
  \<^verbatim>\<open>float('inf')\<close>.
\<close>

datatype end_time = Finite rat | Forever

definition xread_args ::
    "rat \<Rightarrow> pyargs \<Rightarrow> (end_time option \<times> string list \<times> string list) outcome" where
  "xread_args now a =
     (case a of
        ArgStr s \<Rightarrow> Raise (RedisException ''Invalid arguments. Expected streams in argument list'')
      | ArgList raw \<Rightarrow>
          if ''streams'' \<notin> set raw
          then Raise (RedisException ''Invalid arguments. Expected streams in argument list'')
          else
            (let args = map lower raw in
             case index_of args ''streams'' of
               None \<Rightarrow> Raise ValueError
             | Some streams_index \<Rightarrow>
                 (let stream_args = drop (streams_index + 1) args;
                      split = (\<lambda>blk.
                        if length stream_args mod 2 \<noteq> 0
                        then Raise (RedisException
                          ''The number of stream keys must match the number of start IDs.'')
                        else Return (blk,
                                     take (length stream_args div 2) stream_args,
                                     drop (length stream_args div 2) stream_args))
                  in case index_of args ''block'' of
                       None \<Rightarrow> split None
                     | Some block_index \<Rightarrow>
                         (case idx args (block_index + 1) of
                            Return b \<Rightarrow>
                              (case py_int b of
                                 Return block_time \<Rightarrow>
                                   if block_time < 0
                                   then Raise (RedisException
                                     ''Block time must be a non-negative integer.'')
                                   else split (Some
                                     (if block_time = 0 then Forever
                                      else Finite (now + of_int (block_time div 1000))))
                               | Raise e \<Rightarrow> Raise e
                               | Pending \<Rightarrow> Pending)
                          | Raise e \<Rightarrow> Raise e
                          | Pending \<Rightarrow> Pending))))"

text \<open>\<^verbatim>\<open>max\<close> of a sequence of stream identifiers; ValueError on the empty sequence.\<close>

definition sid_max :: "sid \<Rightarrow> sid \<Rightarrow> sid" where
  "sid_max a b = (if sid_less a b then b else a)"

definition py_max :: "sid list \<Rightarrow> sid outcome" where
  "py_max xs = (case xs of [] \<Rightarrow> Raise ValueError | x # rest \<Rightarrow> Return (fold (\<lambda>y m. sid_max m y) rest x))"

text \<open>
  Lines 154 to 162: every start id gets the prefix of an exclusive bound, and \<^verbatim>\<open>$\<close> is
  replaced by the greatest key of \<^verbatim>\<open>self.db.data[stream_key]\<close>. The counter is the
  loop's \<^verbatim>\<open>idx\<close>.
\<close>

fun resolve_ids :: "database \<Rightarrow> string list \<Rightarrow> nat \<Rightarrow> string list \<Rightarrow> string list outcome" where
  "resolve_ids d stream_keys i [] = Return []"
| "resolve_ids d stream_keys i (v # rest) =
     (case (if v = ''$'' then
              (case idx stream_keys i of
                 Return stream_key \<Rightarrow>
                   (case map_of (data d) stream_key of
                      None \<Rightarrow> Raise KeyError
                    | Some (Str s) \<Rightarrow> Raise AttributeError
                    | Some (Stream es) \<Rightarrow>
                        (case py_max (map fst es) of
                           Return m \<Rightarrow> Return (show_sid m)
                         | Raise e \<Rightarrow> Raise e
                         | Pending \<Rightarrow> Pending))
               | Raise e \<Rightarrow> Raise e
               | Pending \<Rightarrow> Pending)
            else Return v) of
        Return w \<Rightarrow>
          (case resolve_ids d stream_keys (i + 1) rest of
             Return ws \<Rightarrow> Return ((''('' @ w) # ws)
           | Raise e \<Rightarrow> Raise e
           | Pending \<Rightarrow> Pending)
      | Raise e \<Rightarrow> Raise e
      | Pending \<Rightarrow> Pending)"

text \<open>One pass of the \<^verbatim>\<open>for\<close> loop over \<^verbatim>\<open>zip(stream_keys, start_ids)\<close>.\<close>

fun read_streams :: "database \<Rightarrow> (string \<times> string) list \<Rightarrow> pyval list outcome" where
  "read_streams d [] = Return []"
| "read_streams d (ks # rest) =
     (case get_range_stream d (fst ks) (snd ks) None of
        Return stream_data \<Rightarrow>
          (case read_streams d rest of
             Return found \<Rightarrow>
               Return (if stream_data \<noteq> []
                       then VList [VStr (fst ks), VList stream_data] # found else found)
           | Raise e \<Rightarrow> Raise e
           | Pending \<Rightarrow> Pending)
      | Raise e \<Rightarrow> Raise e
      | Pending \<Rightarrow> Pending)"

definition past :: "rat \<Rightarrow> end_time \<Rightarrow> bool" where
  "past current_time e = (case e of Finite t \<Rightarrow> t < current_time | Forever \<Rightarrow> False)"

text \<open>
  The \<^verbatim>\<open>while True\<close> loop of \<^verbatim>\<open>xread\<close>: read, stop on data, stop when not blocking,
  stop when the clock is past the deadline, otherwise sleep and go round again. The
  last argument is the schedule of the sleeps to come.
\<close>

fun xread_loop ::
    "end_time option \<Rightarrow> string list \<Rightarrow> string list \<Rightarrow> handler \<Rightarrow> tick list \<Rightarrow>
     pyval list outcome \<times> handler" where
  "xread_loop blk stream_keys start_ids h [] =
     (case read_streams (db h) (zip stream_keys start_ids) of
        Return combined_response \<Rightarrow>
          if combined_response \<noteq> [] then (Return combined_response, h\<lparr>future := []\<rparr>)
          else (case blk of
                  None \<Rightarrow> (Return [], h\<lparr>future := []\<rparr>)
                | Some e \<Rightarrow>
                    if past (loop_time h) e then (Return [], h\<lparr>future := []\<rparr>)
                    else (Pending, h\<lparr>future := []\<rparr>))
      | Raise e \<Rightarrow> (Raise e, h\<lparr>future := []\<rparr>)
      | Pending \<Rightarrow> (Pending, h\<lparr>future := []\<rparr>))"
| "xread_loop blk stream_keys start_ids h (t # ts) =
     (case read_streams (db h) (zip stream_keys start_ids) of
        Return combined_response \<Rightarrow>
          if combined_response \<noteq> [] then (Return combined_response, h\<lparr>future := t # ts\<rparr>)
          else (case blk of
                  None \<Rightarrow> (Return [], h\<lparr>future := t # ts\<rparr>)
                | Some e \<Rightarrow>
                    if past (loop_time h) e then (Return [], h\<lparr>future := t # ts\<rparr>)
                    else xread_loop blk stream_keys start_ids (wake t h) ts)
      | Raise e \<Rightarrow> (Raise e, h\<lparr>future := t # ts\<rparr>)
      | Pending \<Rightarrow> (Pending, h\<lparr>future := t # ts\<rparr>))"

definition xread :: "handler \<Rightarrow> pyargs \<Rightarrow> result" where
  "xread h a =
     on_value (xread_args (loop_time h) a) h (\<lambda>p.
     on_value (resolve_ids (db h) (fst (snd p)) 0 (snd (snd p))) h (\<lambda>start_ids.
       and_then (xread_loop (fst p) (fst (snd p)) start_ids h (future h))
         (\<lambda>combined_response h'.
            if combined_response \<noteq> [] then ret (VList combined_response) ARRAY h'
            else ret VNone BULK_STRING h')))"

definition get_cmd :: "handler \<Rightarrow> pyargs \<Rightarrow> result" where
  "get_cmd h key =
     on_value (idx (items key) 0) h (\<lambda>k.
       (case db_get (wall h) k (db h) of
          (v, d) \<Rightarrow>
            ret (case v of
                   None \<Rightarrow> VNone
                 | Some (Str s) \<Rightarrow> VStr s
                 | Some (Stream es) \<Rightarrow> VDict es) BULK_STRING (h\<lparr>db := d\<rparr>)))"

text \<open>
  \<^verbatim>\<open>increment\<close>: a missing value counts as 0; \<^verbatim>\<open>int\<close> of a string that is no
  integer is the RedisException, \<^verbatim>\<open>int\<close> of a stream's dictionary a TypeError.
\<close>

definition increment :: "handler \<Rightarrow> pyargs \<Rightarrow> result" where
  "increment h key =
     on_value (idx (items key) 0) h (\<lambda>k.
       (case db_get (wall h) k (db h) of
          (v, d) \<Rightarrow>
            on_value
              (case v of
                 None \<Rightarrow> Return 0
               | Some (Str s) \<Rightarrow>
                   (case py_int s of
                      Return n \<Rightarrow> Return n
                    | Raise e \<Rightarrow>
                        if e = ValueError
                        then Raise (RedisException ''value is not an integer or out of range'')
                        else Raise e
                    | Pending \<Rightarrow> Pending)
               | Some (Stream es) \<Rightarrow> Raise TypeError)
              (h\<lparr>db := d\<rparr>)
              (\<lambda>n. ret (VInt (n + 1)) INTEGER
                     (h\<lparr>db := db_set k (py_str (n + 1)) None d,
                        effects := effects h @ [DbSet k (py_str (n + 1)) None]\<rparr>))))"

definition type_cmd :: "handler \<Rightarrow> pyargs \<Rightarrow> result" where
  "type_cmd h key =
     on_value (idx (items key) 0) h (\<lambda>k.
       (case db_get (wall h) k (db h) of
          (v, d) \<Rightarrow>
            ret (VStr (case v of
                         None \<Rightarrow> ''none''
                       | Some (Str s) \<Rightarrow> ''string''
                       | Some (Stream es) \<Rightarrow> ''stream'')) SIMPLE_STRING (h\<lparr>db := d\<rparr>)))"

text \<open>\<^verbatim>\<open>keys\<close>: \<^verbatim>\<open>pattern[0]\<close> is evaluated inside the loop, once per key.\<close>

definition keys_cmd :: "handler \<Rightarrow> pyargs \<Rightarrow> result" where
  "keys_cmd h pattern =
     (if db_iter (wall h) (db h) = [] then ret (VList []) ARRAY h
      else on_value (idx (items pattern) 0) h (\<lambda>p.
             ret (VList (map VStr (filter (\<lambda>k. fnmatch h k p) (db_iter (wall h) (db h))))) ARRAY h))"

text \<open>\<^verbatim>\<open>args[1:]\<close>.\<close>

fun rest_args :: "pyargs \<Rightarrow> pyargs" where
  "rest_args (ArgList xs) = ArgList (drop 1 xs)"
| "rest_args (ArgStr s) = ArgStr (drop 1 s)"

definition config_get :: "handler \<Rightarrow> pyargs \<Rightarrow> result" where
  "config_get h args =
     on_value (idx (items args) 0) h (\<lambda>key.
       ret (VList [VStr key,
                   (case map_of (environ h) key of None \<Rightarrow> VNone | Some v \<Rightarrow> VStr v)]) ARRAY h)"

definition config :: "handler \<Rightarrow> pyargs \<Rightarrow> result" where
  "config h args =
     on_value (idx (items args) 0) h (\<lambda>a.
       if lower a = ''get'' then config_get h (rest_args args)
       else (Raise (RedisException (''Invalid config subcommand: '' @ lower a)), h))"

fun join :: "string \<Rightarrow> string list \<Rightarrow> string" where
  "join sep [] = []"
| "join sep [x] = x"
| "join sep (x # y # ys) = x @ sep @ join sep (y # ys)"

definition info_replication :: "handler \<Rightarrow> result" where
  "info_replication h =
     (let role = (if truthy_env (environ h) ''replicaof'' then ''slave'' else ''master'') in
      ret (VStr (join CRLF
             ((''role:'' @ role) #
              (if role = ''master''
               then [''master_repl_offset:'' @
                       (case replication_offset h of None \<Rightarrow> ''None'' | Some n \<Rightarrow> py_str n),
                     ''master_replid:'' @
                       (case replication_id h of None \<Rightarrow> ''None'' | Some r \<Rightarrow> r)]
               else [])))) BULK_STRING h)"

definition info :: "handler \<Rightarrow> pyargs \<Rightarrow> result" where
  "info h args =
     (case items args of
        [] \<Rightarrow> (Raise (RedisException ''Currently, INFO command expects subcommand''), h)
      | a # _ \<Rightarrow>
          if lower a = ''replication'' then info_replication h
          else (Raise (RedisException (''Invalid info subcommand: '' @ lower a)), h))"

text \<open>
  \<^verbatim>\<open>write_to_replicas\<close>: the frame goes to the registry, then the offset grows by its
  length. On a replica the offset is None and the addition is a TypeError.
\<close>

definition write_to_replicas :: "string \<Rightarrow> handler \<Rightarrow> unit outcome \<times> handler" where
  "write_to_replicas bytes h =
     (let h1 = h\<lparr>connection_registry := broadcast bytes (connection_registry h),
                 effects := effects h @ [Broadcast bytes]\<rparr>
      in case replication_offset h1 of
           None \<Rightarrow> (Raise TypeError, h1)
         | Some n \<Rightarrow> (Return (), h1\<lparr>replication_offset := Some (n + int (length bytes))\<rparr>))"

text \<open>
  The \<^verbatim>\<open>while True\<close> loop of \<^verbatim>\<open>wait\<close>: count the replicas that have acknowledged the
  target, return when there are enough or the clock has reached the end time, otherwise
  sleep. The last argument is the schedule of the sleeps to come.
\<close>

fun wait_loop ::
    "int option \<Rightarrow> int \<Rightarrow> rat \<Rightarrow> handler \<Rightarrow> tick list \<Rightarrow> result" where
  "wait_loop target_offset required_min_sync end_t h [] =
     (case check_replica_sync target_offset (connection_registry h) of
        Return replicas_synced \<Rightarrow>
          if required_min_sync \<le> int replicas_synced
          then ret (VInt (int replicas_synced)) INTEGER (h\<lparr>future := []\<rparr>)
          else if end_t \<le> loop_time h
          then ret (VInt (int replicas_synced)) INTEGER (h\<lparr>future := []\<rparr>)
          else (Pending, h\<lparr>future := []\<rparr>)
      | Raise e \<Rightarrow> (Raise e, h\<lparr>future := []\<rparr>)
      | Pending \<Rightarrow> (Pending, h\<lparr>future := []\<rparr>))"
| "wait_loop target_offset required_min_sync end_t h (t # ts) =
     (case check_replica_sync target_offset (connection_registry h) of
        Return replicas_synced \<Rightarrow>
          if required_min_sync \<le> int replicas_synced
          then ret (VInt (int replicas_synced)) INTEGER (h\<lparr>future := t # ts\<rparr>)
          else if end_t \<le> loop_time h
          then ret (VInt (int replicas_synced)) INTEGER (h\<lparr>future := t # ts\<rparr>)
          else wait_loop target_offset required_min_sync end_t (wake t h) ts
      | Raise e \<Rightarrow> (Raise e, h\<lparr>future := t # ts\<rparr>)
      | Pending \<Rightarrow> (Pending, h\<lparr>future := t # ts\<rparr>))"

definition getack_frame :: "string option" where
  "getack_frame = encode_array [VStr ''REPLCONF'', VStr ''GETACK'', VStr ''*'']"

definition wait :: "handler \<Rightarrow> pyargs \<Rightarrow> result" where
  "wait h args =
     on_value (idx (items args) 0) h (\<lambda>a0.
     on_value (py_int a0) h (\<lambda>required_min_sync.
     on_value (idx (items args) 1) h (\<lambda>a1.
     on_value (py_int a1) h (\<lambda>timeout_ms.
       if replication_offset h = Some 0
       then ret (VInt (int (length (get_replicas (connection_registry h))))) INTEGER h
       else
         (case getack_frame of
            None \<Rightarrow> (Raise NotModelled, h)
          | Some frame \<Rightarrow>
              and_then (write_to_replicas frame h) (\<lambda>u h1.
                wait_loop (replication_offset h) required_min_sync
                  (loop_time h + of_int timeout_ms / 1000) h1 (future h1)))))))"

definition replconf_getack :: "handler \<Rightarrow> pyargs \<Rightarrow> result" where
  "replconf_getack h args =
     ret (VList [VStr ''REPLCONF'', VStr ''ACK'', VStr (py_str (bytes_processed h))]) ARRAY h"

definition replconf_ack :: "handler \<Rightarrow> pyargs \<Rightarrow> nat option \<Rightarrow> result" where
  "replconf_ack h args w =
     on_value (idx (items args) 0) h (\<lambda>a.
     on_value (py_int a) h (\<lambda>n.
       (Return None,
        h\<lparr>connection_registry := update_replica_offset w n (connection_registry h)\<rparr>)))"

definition replconf :: "handler \<Rightarrow> pyargs \<Rightarrow> nat option \<Rightarrow> result" where
  "replconf h args w =
     (case items args of
        [] \<Rightarrow> (Raise (RedisException ''Currently, REPLCONF command expects subcommand''), h)
      | a # _ \<Rightarrow>
          if lower a = ''getack'' then replconf_getack h (rest_args args)
          else if lower a = ''ack'' then replconf_ack h (rest_args args) w
          else ret (VStr ''OK'') SIMPLE_STRING h)"

definition psync :: "handler \<Rightarrow> pyargs \<Rightarrow> nat option \<Rightarrow> result" where
  "psync h args w =
     ret (VStr (encode_simple_string
                  (''FULLRESYNC '' @
                   (case replication_id h of None \<Rightarrow> ''None'' | Some r \<Rightarrow> r) @ '' '' @
                   (case replication_offset h of None \<Rightarrow> ''None'' | Some n \<Rightarrow> py_str n))
                @ encode_file (empty_rdb h))) ENCODED
       (h\<lparr>connection_registry :=
            add_replica w (replication_id h) (replication_offset h) (connection_registry h)\<rparr>)"

definition multi :: "handler \<Rightarrow> pyargs \<Rightarrow> result" where
  "multi h args = ret (VStr ''OK'') SIMPLE_STRING (h\<lparr>transaction_queue := Some []\<rparr>)"

text \<open>
  The loop of \<^verbatim>\<open>exec\<close>. Its first argument stands for
  \<^verbatim>\<open>self._execute(command, comm_arr, execute_transaction=True)\<close>. Unpacking
  \<^verbatim>\<open>response, _ = None\<close> is a TypeError.
\<close>

fun exec_loop ::
    "(handler \<Rightarrow> string \<Rightarrow> pyargs \<Rightarrow> result) \<Rightarrow> (string \<times> pyargs) list \<Rightarrow> pyval list \<Rightarrow> handler \<Rightarrow>
     pyval list outcome \<times> handler" where
  "exec_loop run [] responses h = (Return responses, h)"
| "exec_loop run (ca # queue) responses h =
     (case run h (fst ca) (snd ca) of
        (Return None, h1) \<Rightarrow> (Raise TypeError, h1)
      | (Return (Some rt), h1) \<Rightarrow> exec_loop run queue (responses @ [fst rt]) h1
      | (Raise e, h1) \<Rightarrow> (Raise e, h1)
      | (Pending, h1) \<Rightarrow> (Pending, h1))"

definition exec :: "(handler \<Rightarrow> string \<Rightarrow> pyargs \<Rightarrow> result) \<Rightarrow> handler \<Rightarrow> pyargs \<Rightarrow> result" where
  "exec run h args =
     (case transaction_queue h of
        None \<Rightarrow> (Raise (RedisException ''EXEC without MULTI''), h)
      | Some queue \<Rightarrow>
          and_then (exec_loop run queue [] h) (\<lambda>responses h1.
            ret (VList responses) ARRAY (h1\<lparr>transaction_queue := None\<rparr>)))"

definition discard :: "handler \<Rightarrow> pyargs \<Rightarrow> result" where
  "discard h args =
     (case transaction_queue h of
        None \<Rightarrow> (Raise (RedisException ''DISCARD without MULTI''), h)
      | Some queue \<Rightarrow> ret (VStr ''OK'') SIMPLE_STRING (h\<lparr>transaction_queue := None\<rparr>))"

subsubsection \<open>Dispatch\<close>

text \<open>\<^verbatim>\<open>get_command\<close> on a decoded list of strings, or on a decoded string.\<close>

fun strings_of :: "resp list \<Rightarrow> string list option" where
  "strings_of [] = Some []"
| "strings_of (RStr s # xs) = map_option ((#) s) (strings_of xs)"
| "strings_of (x # xs) = None"

text \<open>
  An empty list has no first element (IndexError); a first element or a value that is
  not a string has no \<^verbatim>\<open>lower\<close> (AttributeError). Clients and the master send arrays
  of bulk strings; an array whose further elements are not all strings is outside the
  model.
\<close>

definition get_command :: "resp \<Rightarrow> (string \<times> pyargs) outcome" where
  "get_command command_arr =
     (case command_arr of
        RArr [] \<Rightarrow> Raise IndexError
      | RArr (RStr c # xs) \<Rightarrow>
          (case strings_of xs of
             None \<Rightarrow> Raise NotModelled
           | Some a \<Rightarrow> Return (lower c, ArgList a))
      | RArr (x # xs) \<Rightarrow> Raise AttributeError
      | RStr s \<Rightarrow> Return (lower s, ArgStr s)
      | x \<Rightarrow> Raise AttributeError)"

datatype kls =
    K_ping | K_echo | K_set | K_get | K_increment | K_xadd | K_xrange | K_xread | K_multi
  | K_exec | K_discard | K_config | K_keys | K_info | K_replconf | K_psync | K_wait | K_type

definition kls_map :: "(string \<times> kls) list" where
  "kls_map =
     [(''ping'', K_ping), (''echo'', K_echo), (''set'', K_set), (''get'', K_get),
      (''incr'', K_increment), (''xadd'', K_xadd), (''xrange'', K_xrange),
      (''xread'', K_xread), (''multi'', K_multi), (''exec'', K_exec),
      (''discard'', K_discard), (''config'', K_config), (''keys'', K_keys),
      (''info'', K_info), (''replconf'', K_replconf), (''psync'', K_psync),
      (''wait'', K_wait), (''type'', K_type)]"

definition get_command_kls :: "string \<Rightarrow> kls outcome" where
  "get_command_kls command =
     (case map_of kls_map command of
        None \<Rightarrow> Raise (RedisException ''Invalid command'')
      | Some k \<Rightarrow> Return k)"

text \<open>
  The call \<^verbatim>\<open>kls(command_arg)\<close>, or \<^verbatim>\<open>kls(command_arg, writer)\<close> for
  \<^verbatim>\<open>psync\<close> and \<^verbatim>\<open>replconf\<close>.
\<close>

fun call_kls ::
    "(handler \<Rightarrow> string \<Rightarrow> pyargs \<Rightarrow> result) \<Rightarrow> kls \<Rightarrow> handler \<Rightarrow> pyargs \<Rightarrow> nat option \<Rightarrow> result" where
  "call_kls run K_ping h a w = ping h a"
| "call_kls run K_echo h a w = echo h a"
| "call_kls run K_set h a w = set_cmd h a"
| "call_kls run K_get h a w = get_cmd h a"
| "call_kls run K_increment h a w = increment h a"
| "call_kls run K_xadd h a w = xadd h a"
| "call_kls run K_xrange h a w = xrange h a"
| "call_kls run K_xread h a w = xread h a"
| "call_kls run K_multi h a w = multi h a"
| "call_kls run K_exec h a w = exec run h a"
| "call_kls run K_discard h a w = discard h a"
| "call_kls run K_config h a w = config h a"
| "call_kls run K_keys h a w = keys_cmd h a"
| "call_kls run K_info h a w = info h a"
| "call_kls run K_replconf h a w = replconf h a w"
| "call_kls run K_psync h a w = psync h a w"
| "call_kls run K_wait h a w = wait h a"
| "call_kls run K_type h a w = type_cmd h a"

text \<open>\<^verbatim>\<open>except RedisException as exc: return exc, RedisType.ERROR\<close>.\<close>

fun except_redis :: "result \<Rightarrow> result" where
  "except_redis (Raise (RedisException m), h) = (Return (Some (VExc m, ERROR)), h)"
| "except_redis r = r"

text \<open>
  The body of \<^verbatim>\<open>_execute\<close>. With a transaction open and outside of \<^verbatim>\<open>exec\<close>,
  \<^verbatim>\<open>exec\<close> and \<^verbatim>\<open>discard\<close> run and anything else is queued. Otherwise the
  command function is looked up, before the \<^verbatim>\<open>try\<close>, and called, inside it.
\<close>

definition execute_body ::
    "(handler \<Rightarrow> string \<Rightarrow> pyargs \<Rightarrow> result) \<Rightarrow> nat option \<Rightarrow> bool \<Rightarrow> handler \<Rightarrow> string \<Rightarrow> pyargs \<Rightarrow>
     result" where
  "execute_body run w execute_transaction h command command_arg =
     (case (if execute_transaction then None else transaction_queue h) of
        Some queue \<Rightarrow>
          if command = ''exec'' then exec run h command_arg
          else if command = ''discard'' then discard h command_arg
          else ret (VStr ''QUEUED'') SIMPLE_STRING
                 (h\<lparr>transaction_queue := Some (queue @ [(command, command_arg)])\<rparr>)
      | None \<Rightarrow>
          on_value (get_command_kls command) h (\<lambda>k.
            except_redis (call_kls run k h command_arg w)))"

text \<open>
  \<^verbatim>\<open>_execute(command, command_arg, writer, execute_transaction)\<close>, with the writer and
  the flag in front. The first argument is the depth of calls that Python's recursion
  limit still allows: \<^verbatim>\<open>exec\<close> calls \<^verbatim>\<open>_execute\<close>, which may call \<^verbatim>\<open>exec\<close>.
\<close>

fun execute_inner ::
    "nat \<Rightarrow> nat option \<Rightarrow> bool \<Rightarrow> handler \<Rightarrow> string \<Rightarrow> pyargs \<Rightarrow> result" where
  "execute_inner 0 w execute_transaction h command command_arg = (Raise RecursionError, h)"
| "execute_inner (Suc depth) w execute_transaction h command command_arg =
     execute_body (execute_inner depth None True) w execute_transaction h command command_arg"

definition recursion_limit :: nat where
  "recursion_limit = 1000"

definition encode :: "pyval \<Rightarrow> rtype \<Rightarrow> string outcome" where
  "encode d data_type =
     (case (data_type, d) of
        (INTEGER, VInt n) \<Rightarrow> Return (encode_integer n)
      | (BULK_STRING, VStr s) \<Rightarrow> Return (encode_bulk_string (Some s))
      | (BULK_STRING, VNone) \<Rightarrow> Return (encode_bulk_string None)
      | (ARRAY, VList xs) \<Rightarrow>
          (case encode_array xs of None \<Rightarrow> Raise NotModelled | Some s \<Rightarrow> Return s)
      | (SIMPLE_STRING, VStr s) \<Rightarrow> Return (encode_simple_string s)
      | (ERROR, VExc m) \<Rightarrow> Return (encode_error m)
      | (ENCODED, VStr s) \<Rightarrow> Return s
      | _ \<Rightarrow> Raise NotModelled)"

definition execute ::
    "handler \<Rightarrow> string \<Rightarrow> pyargs \<Rightarrow> nat option \<Rightarrow> bool \<Rightarrow> string option outcome \<times> handler" where
  "execute h command command_arg w execute_transaction =
     and_then (execute_inner recursion_limit w execute_transaction h command command_arg)
       (\<lambda>response h1.
          case response of
            None \<Rightarrow> (Return None, h1)
          | Some rt \<Rightarrow> on_value (encode (fst rt) (snd rt)) h1 (\<lambda>s. (Return (Some s), h1)))"

definition handle_master_command ::
    "handler \<Rightarrow> string \<Rightarrow> nat option \<Rightarrow> string option outcome \<times> handler" where
  "handle_master_command h command_data w =
     on_value (decode command_data) h (\<lambda>dv.
     on_value (get_command (fst dv)) h (\<lambda>ca.
       and_then (if fst ca \<in> {''set''} then write_to_replicas command_data h
                 else (Return (), h))
         (\<lambda>u h1. execute h1 (fst ca) (snd ca) w False)))"

text \<open>The loop of \<^verbatim>\<open>handle_replica\<close> over the decoded commands.\<close>

fun replica_loop ::
    "bool \<Rightarrow> (resp \<times> nat) list \<Rightarrow> string option list \<Rightarrow> handler \<Rightarrow>
     string option list outcome \<times> handler" where
  "replica_loop propogated_command [] responses h = (Return responses, h)"
| "replica_loop propogated_command (cl # rest) responses h =
     on_value (get_command (fst cl)) h (\<lambda>ca.
       and_then (execute h (fst ca) (snd ca) None False) (\<lambda>response h1.
         replica_loop propogated_command rest
           (if \<not> propogated_command \<or> fst ca \<in> {''replconf''}
            then responses @ [response] else responses)
           (h1\<lparr>bytes_processed := bytes_processed h1 + int (snd cl)\<rparr>)))"

text \<open>\<^verbatim>\<open>"".join(responses)\<close>: a None among the responses is a TypeError.\<close>

definition join_responses :: "string option list \<Rightarrow> string outcome" where
  "join_responses rs =
     (if None \<in> set rs then Raise TypeError else Return (concat (map the rs)))"

definition handle_replica ::
    "handler \<Rightarrow> string \<Rightarrow> bool \<Rightarrow> string option outcome \<times> handler" where
  "handle_replica h command_data propogated_command =
     on_value (multi_command_decoder command_data) h (\<lambda>command_arr.
       and_then (replica_loop propogated_command command_arr [] h) (\<lambda>responses h1.
         on_value (join_responses responses) h1 (\<lambda>s. (Return (Some s), h1))))"

definition handle ::
    "handler \<Rightarrow> string \<Rightarrow> nat option \<Rightarrow> bool \<Rightarrow> string option outcome \<times> handler" where
  "handle h command_data w propogated_command =
     (if is_replica h then handle_replica h command_data propogated_command
      else handle_master_command h command_data w)"

subsection \<open>Concrete frames and handlers\<close>

text \<open>
  The frame a client sends for an argument vector (an array of bulk strings), a freshly
  started master and a freshly started replica. They serve the examples below.
\<close>

definition command_frame :: "string list \<Rightarrow> string" where
  "command_frame argv =
     ''*'' @ show_nat (length argv) @ CRLF @ concat (map (\<lambda>s. encode_bulk_string (Some s)) argv)"

definition master0 :: handler where
  "master0 = init_handler [] (replicate 40 (CHR ''a'')) (\<lambda>k p. False) []"

definition replica0 :: handler where
  "replica0 =
     init_handler [(''replicaof'', ''localhost 6379'')] (replicate 40 (CHR ''a'')) (\<lambda>k p. False) []"

subsection \<open>Notions used in the statements\<close>

text \<open>The frames handed to \<^verbatim>\<open>connection_registry.broadcast\<close>, oldest first.\<close>

fun broadcasts :: "event list \<Rightarrow> string list" where
  "broadcasts [] = []"
| "broadcasts (Broadcast b # es) = b # broadcasts es"
| "broadcasts (DbSet k v e # es) = broadcasts es"
| "broadcasts (StreamAdd k i # es) = broadcasts es"

definition sent_bytes :: "event list \<Rightarrow> int" where
  "sent_bytes es = int (sum_list (map length (broadcasts es)))"

text \<open>
  A forwarded frame is a write command when it decodes to a command of the broadcast
  set of \<^verbatim>\<open>handle_master_command\<close>.
\<close>

definition is_write_frame :: "string \<Rightarrow> bool" where
  "is_write_frame b =
     (case decode b of
        Return dv \<Rightarrow> (case get_command (fst dv) of Return ca \<Rightarrow> fst ca \<in> {''set''} | _ \<Rightarrow> False)
      | _ \<Rightarrow> False)"

definition forwarded_writes :: "event list \<Rightarrow> string list" where
  "forwarded_writes es = filter is_write_frame (broadcasts es)"

text \<open>The frame that \<^verbatim>\<open>wait\<close> broadcasts.\<close>

definition is_getack :: "string \<Rightarrow> bool" where
  "is_getack b = (getack_frame = Some b)"

text \<open>
  From \<open>h\<close> to \<open>h'\<close> the log of effects has only grown, every frame broadcast in
  between satisfies \<open>P\<close>, the replication offset has grown by the lengths of these
  frames, and the role and the byte counter of the replica side are as they were.
\<close>

definition advances :: "(string \<Rightarrow> bool) \<Rightarrow> handler \<Rightarrow> handler \<Rightarrow> bool" where
  "advances P h h' =
     (\<exists>es. effects h' = effects h @ es \<and> list_all P (broadcasts es) \<and>
           replication_offset h' = map_option (\<lambda>n. n + sent_bytes es) (replication_offset h) \<and>
           bytes_processed h' = bytes_processed h \<and> is_replica h' = is_replica h)"

text \<open>
  The states of a master: it starts with \<^verbatim>\<open>replicaof\<close> unset, the world moves the
  clocks and fixes what the coming sleeps will bring, and every call of \<^verbatim>\<open>handle\<close>
  runs to its end (or to the end of the schedule) before the next one.
\<close>

inductive reachable :: "handler \<Rightarrow> bool" where
  start: "\<not> truthy_env env ''replicaof'' \<Longrightarrow> reachable (init_handler env rid glob rdb)"
| world: "reachable h \<Longrightarrow> reachable (h\<lparr>wall := t, loop_time := c, future := f\<rparr>)"
| call: "reachable h \<Longrightarrow> reachable (snd (handle h command_data w p))"

text \<open>A fresh master after \<^verbatim>\<open>SET foo bar\<close> and \<^verbatim>\<open>WAIT 0 100\<close>.\<close>

definition set_then_wait :: handler where
  "set_then_wait =
     snd (handle (snd (handle master0 (command_frame [''SET'', ''foo'', ''bar'']) (Some 1) False))
            (command_frame [''WAIT'', ''0'', ''100'']) (Some 1) False)"







section \<open>Properties\<close>

subsection \<open>The arguments of XREAD\<close>









subsection \<open>Unknown verbs\<close>

text \<open>
  Claim C3 (an unknown verb is answered with an Error frame and no exception escapes)
  does not hold of the code. \<^verbatim>\<open>_execute\<close> calls \<^verbatim>\<open>get_command_kls\<close> before its
  \<^verbatim>\<open>try\<close>, so the RedisException of an unknown verb leaves \<^verbatim>\<open>_execute\<close>,
  \<^verbatim>\<open>execute\<close> and \<^verbatim>\<open>handle\<close>: the frame \<^verbatim>\<open>FOO\<close> on a fresh master raises.
\<close>

theorem unknown_verb_escapes:
  "fst (handle master0 (command_frame [''FOO'']) (Some 1) False) =
     Raise (RedisException ''Invalid command'')"
  by code_simp

text \<open>
  The same exception class raised by a command function, inside the \<^verbatim>\<open>try\<close>, becomes
  an Error frame: \<^verbatim>\<open>EXEC\<close> without \<^verbatim>\<open>MULTI\<close>.
\<close>

lemma known_error_is_reply:
  "fst (handle master0 (command_frame [''EXEC'']) (Some 1) False) =
     Return (Some (''-EXEC without MULTI'' @ CRLF))"
  by code_simp

text \<open>
  Claim C4 (an error of a queued command is an element of the reply of EXEC and the other
  queued commands still run, also for unknown verbs) does not hold of the code for an
  unknown verb. After \<^verbatim>\<open>MULTI\<close>, \<^verbatim>\<open>FOO\<close> (queued), \<^verbatim>\<open>SET a 1\<close> (queued), the
  command \<^verbatim>\<open>EXEC\<close> raises, the queue stays as it was and \<^verbatim>\<open>SET a 1\<close> has not run.
\<close>

theorem exec_unknown_verb_aborts:
  "(let h1 = snd (handle master0 (command_frame [''MULTI'']) (Some 1) False);
        h2 = snd (handle h1 (command_frame [''FOO'']) (Some 1) False);
        h3 = snd (handle h2 (command_frame [''SET'', ''a'', ''1'']) (Some 1) False);
        r = handle h3 (command_frame [''EXEC'']) (Some 1) False
    in fst (handle h1 (command_frame [''FOO'']) (Some 1) False) = Return (Some (''+QUEUED'' @ CRLF)) \<and>
       fst r = Raise (RedisException ''Invalid command'') \<and>
       transaction_queue (snd r) = Some [(''foo'', ArgList []), (''set'', ArgList [''a'', ''1''])] \<and>
       data (db (snd r)) = [])"
  by code_simp

text \<open>
  For a queued command that a command function rejects with a RedisException the claim
  holds: the error stands at its position and the next command runs.
\<close>

lemma exec_error_in_place_example:
  "(let h1 = snd (handle master0 (command_frame [''SET'', ''a'', ''x'']) (Some 1) False);
        h2 = snd (handle h1 (command_frame [''MULTI'']) (Some 1) False);
        h3 = snd (handle h2 (command_frame [''INCR'', ''a'']) (Some 1) False);
        h4 = snd (handle h3 (command_frame [''SET'', ''b'', ''1'']) (Some 1) False);
        r = execute_inner recursion_limit (Some 1) False h4 ''exec'' (ArgList [])
    in fst r = Return (Some (VList [VExc ''value is not an integer or out of range'', VStr ''OK''], ARRAY)) \<and>
       transaction_queue (snd r) = None \<and>
       data (db (snd r)) = [(''a'', Str ''x''), (''b'', Str ''1'')])"
  by code_simp

subsection \<open>The deadline of a blocking XREAD\<close>

text \<open>
  Claim C6 (XREAD with BLOCK t returns the null bulk string only once t milliseconds have
  passed) does not hold of the code: the deadline is the entry time plus
  \<^verbatim>\<open>block_time // 1000\<close> seconds, whole seconds only. With BLOCK 1500, entered at clock
  100 s, the command returns the null bulk string at the poll at 101.2 s, 1200 ms after
  entry.
\<close>

theorem xread_block_deadline_truncated:
  "(let h = master0\<lparr>loop_time := 100,
                    future := [\<lparr>t_wall = 1200000, t_loop = 1012 / 10, t_db = db master0, t_acks = []\<rparr>]\<rparr>;
        r = handle h (command_frame [''XREAD'', ''block'', ''1500'', ''streams'', ''s'', ''0-0'']) (Some 1) False
    in fst r = Return (Some (''$-1'' @ CRLF)) \<and> loop_time (snd r) = 1012 / 10 \<and> future (snd r) = [])"
  by code_simp

subsection \<open>What a call changes\<close>

lemma broadcasts_append: "broadcasts (xs @ ys) = broadcasts xs @ broadcasts ys"
  by (induction xs rule: broadcasts.induct) simp_all

lemma sent_bytes_append: "sent_bytes (xs @ ys) = sent_bytes xs + sent_bytes ys"
  by (simp add: sent_bytes_def broadcasts_append)

lemma sent_bytes_Nil: "sent_bytes [] = 0"
  by (simp add: sent_bytes_def)

lemma advances_refl: "advances P h h"
  unfolding advances_def by (rule exI [of _ "[]"]) (simp add: sent_bytes_Nil option.map_ident)

lemma advances_trans:
  assumes "advances P a b" and "advances P b c"
  shows "advances P a c"
proof -
  from assms(1) obtain es where 1: "effects b = effects a @ es" "list_all P (broadcasts es)"
      "replication_offset b = map_option (\<lambda>n. n + sent_bytes es) (replication_offset a)"
      "bytes_processed b = bytes_processed a" "is_replica b = is_replica a"
    unfolding advances_def by blast
  from assms(2) obtain fs where 2: "effects c = effects b @ fs" "list_all P (broadcasts fs)"
      "replication_offset c = map_option (\<lambda>n. n + sent_bytes fs) (replication_offset b)"
      "bytes_processed c = bytes_processed b" "is_replica c = is_replica b"
    unfolding advances_def by blast
  show ?thesis
    unfolding advances_def
    apply (rule exI [of _ "es @ fs"])
    using 1 2 by (cases "replication_offset a") (simp_all add: sent_bytes_append broadcasts_append)
qed

lemma advances_mono:
  assumes "advances P a b" and "\<And>x. P x \<Longrightarrow> Q x"
  shows "advances Q a b"
  using assms unfolding advances_def list_all_iff by blast

text \<open>A step that broadcasts nothing.\<close>

lemma advances_quiet:
  assumes "effects h' = effects h @ es" and "broadcasts es = []"
    and "replication_offset h' = replication_offset h"
    and "bytes_processed h' = bytes_processed h" and "is_replica h' = is_replica h"
  shows "advances P h h'"
  unfolding advances_def
  apply (rule exI [of _ es])
  using assms by (simp add: sent_bytes_def option.map_ident)

lemma advances_on_value:
  assumes "advances P h0 h" and "\<And>x. v = Return x \<Longrightarrow> advances P h0 (snd (k x))"
  shows "advances P h0 (snd (on_value v h k))"
  using assms by (cases v) simp_all

lemma advances_and_then:
  assumes "advances P h0 (snd r)" and "\<And>x h1. r = (Return x, h1) \<Longrightarrow> advances P h0 (snd (k x h1))"
  shows "advances P h0 (snd (and_then r k))"
proof (cases r)
  case (Pair v h1)
  with assms show ?thesis by (cases v) simp_all
qed

lemma advances_wake: "advances P h (wake t h)"
  by (rule advances_quiet [of _ _ "[]"]) (simp_all add: wake_def)

lemma advances_ret: "advances P h0 h \<Longrightarrow> advances P h0 (snd (ret v t h))"
  by (simp add: ret_def)

lemma adv_ping: "advances P h (snd (ping h a))"
  by (simp add: ping_def ret_def advances_refl)

lemma adv_echo: "advances P h (snd (echo h a))"
  unfolding echo_def by (intro advances_on_value advances_ret advances_refl)

lemma adv_set: "advances P h (snd (set_cmd h a))"
  unfolding set_cmd_def
  by (intro advances_on_value advances_ret advances_refl advances_quiet [of _ _ "[DbSet _ _ _]"]) simp_all

lemma adv_xadd: "advances P h (snd (xadd h a))"
  unfolding xadd_def
  apply (intro advances_on_value advances_refl)
  apply (auto split: db_result.splits simp: ret_def advances_refl intro!: advances_quiet [of _ _ "[StreamAdd _ _]"])
  done

lemma adv_xrange: "advances P h (snd (xrange h a))"
  unfolding xrange_def by (intro advances_on_value advances_ret advances_refl)

lemma adv_get: "advances P h (snd (get_cmd h a))"
  unfolding get_cmd_def
  by (intro advances_on_value advances_refl)
     (auto split: prod.splits simp: ret_def intro!: advances_quiet [of _ _ "[]"])

lemma adv_type: "advances P h (snd (type_cmd h a))"
  unfolding type_cmd_def
  by (intro advances_on_value advances_refl)
     (auto split: prod.splits simp: ret_def intro!: advances_quiet [of _ _ "[]"])

lemma adv_increment: "advances P h (snd (increment h a))"
  unfolding increment_def
  apply (intro advances_on_value advances_refl)
  apply (clarsimp split: prod.splits)
  apply (intro advances_on_value advances_ret)
   apply (rule advances_quiet [of _ _ "[]"]; simp)
  apply (rule advances_quiet [of _ _ "[DbSet _ _ _]"]; simp)
  done

lemma adv_keys: "advances P h (snd (keys_cmd h a))"
  unfolding keys_cmd_def
  by (auto intro!: advances_on_value advances_ret advances_refl)

lemma adv_config: "advances P h (snd (config h a))"
  unfolding config_def config_get_def
  by (auto intro!: advances_on_value advances_ret advances_refl)

lemma adv_info: "advances P h (snd (info h a))"
  unfolding info_def info_replication_def
  by (auto split: list.splits simp: Let_def intro!: advances_ret advances_refl)

lemma adv_write_to_replicas: "P b \<Longrightarrow> advances P h (snd (write_to_replicas b h))"
  unfolding write_to_replicas_def advances_def Let_def
  apply (rule exI [of _ "[Broadcast b]"])
  apply (cases "replication_offset h")
   apply (simp_all add: sent_bytes_def)
  done

lemma adv_xread_loop: "advances P h0 h \<Longrightarrow> advances P h0 (snd (xread_loop blk ks ids h ticks))"
proof (induction ticks arbitrary: h)
  case Nil
  have "advances P h (h\<lparr>future := []\<rparr>)"
    by (rule advances_quiet [of _ _ "[]"]) simp_all
  with Nil have "advances P h0 (h\<lparr>future := []\<rparr>)" by (rule advances_trans)
  then show ?case
    by (auto split: outcome.splits option.splits)
next
  case (Cons t ts)
  have "advances P h (h\<lparr>future := t # ts\<rparr>)"
    by (rule advances_quiet [of _ _ "[]"]) simp_all
  with Cons.prems have 1: "advances P h0 (h\<lparr>future := t # ts\<rparr>)" by (rule advances_trans)
  from Cons.prems advances_wake have "advances P h0 (wake t h)" by (rule advances_trans)
  then have 2: "advances P h0 (snd (xread_loop blk ks ids (wake t h) ts))" by (rule Cons.IH)
  from 1 2 show ?case
    by (auto split: outcome.splits option.splits)
qed

lemma adv_xread: "advances P h (snd (xread h a))"
  unfolding xread_def
  by (auto intro!: advances_on_value advances_and_then advances_ret advances_refl adv_xread_loop
      dest: arg_cong [where f = snd])


lemma adv_wait_loop: "advances P h0 h \<Longrightarrow> advances P h0 (snd (wait_loop tgt req e h ticks))"
proof (induction ticks arbitrary: h)
  case Nil
  have "advances P h (h\<lparr>future := []\<rparr>)"
    by (rule advances_quiet [of _ _ "[]"]) simp_all
  with Nil have "advances P h0 (h\<lparr>future := []\<rparr>)" by (rule advances_trans)
  then show ?case
    by (auto split: outcome.splits simp: ret_def)
next
  case (Cons t ts)
  have "advances P h (h\<lparr>future := t # ts\<rparr>)"
    by (rule advances_quiet [of _ _ "[]"]) simp_all
  with Cons.prems have 1: "advances P h0 (h\<lparr>future := t # ts\<rparr>)" by (rule advances_trans)
  from Cons.prems advances_wake have "advances P h0 (wake t h)" by (rule advances_trans)
  then have 2: "advances P h0 (snd (wait_loop tgt req e (wake t h) ts))" by (rule Cons.IH)
  from 1 2 show ?case
    by (auto split: outcome.splits simp: ret_def)
qed

lemma adv_wait: "advances is_getack h (snd (wait h a))"
proof -
  have w: "advances is_getack h (snd (write_to_replicas frame h))"
    if "getack_frame = Some frame" for frame
    using that by (intro adv_write_to_replicas) (simp add: is_getack_def)
  have l: "advances is_getack h (snd (wait_loop tgt req e h1 ticks))"
    if "getack_frame = Some frame" and "write_to_replicas frame h = (u, h1)"
    for frame u h1 tgt req e ticks
    using w [OF that(1)] that(2) by (intro adv_wait_loop) simp
  show ?thesis
    unfolding wait_def
    apply (intro advances_on_value advances_refl)
    apply (auto split: option.splits simp: ret_def advances_refl w l intro!: advances_and_then)
    done
qed

lemma adv_replconf: "advances P h (snd (replconf h a w))"
  unfolding replconf_def replconf_getack_def replconf_ack_def
  by (auto split: list.splits simp: ret_def advances_refl
      intro!: advances_on_value advances_quiet [of _ _ "[]"])

lemma adv_psync: "advances P h (snd (psync h a w))"
  unfolding psync_def ret_def by (auto intro!: advances_quiet [of _ _ "[]"])

lemma adv_multi: "advances P h (snd (multi h a))"
  unfolding multi_def ret_def by (auto intro!: advances_quiet [of _ _ "[]"])

lemma adv_discard: "advances P h (snd (discard h a))"
  unfolding discard_def ret_def
  by (auto split: option.splits simp: advances_refl intro!: advances_quiet [of _ _ "[]"])

lemma adv_exec_loop:
  assumes run: "\<And>h c a. advances P h (snd (run h c a))"
  shows "advances P h0 h \<Longrightarrow> advances P h0 (snd (exec_loop run q rs h))"
proof (induction q arbitrary: rs h)
  case Nil
  then show ?case by simp
next
  case (Cons ca q)
  obtain v h1 where r: "run h (fst ca) (snd ca) = (v, h1)" by (cases "run h (fst ca) (snd ca)")
  with run [of h "fst ca" "snd ca"] have "advances P h h1" by simp
  with Cons.prems have 1: "advances P h0 h1" by (rule advances_trans)
  show ?case
    using r 1 Cons.IH [OF 1] by (auto split: outcome.splits option.splits)
qed

lemma adv_exec:
  assumes run: "\<And>h c a. advances P h (snd (run h c a))"
  shows "advances P h (snd (exec run h a))"
proof (cases "transaction_queue h")
  case None
  then show ?thesis by (simp add: exec_def advances_refl)
next
  case (Some q)
  have 1: "advances P h (snd (exec_loop run q [] h))"
    using run advances_refl by (rule adv_exec_loop)
  have 2: "\<And>h1. advances P h1 (h1\<lparr>transaction_queue := None\<rparr>)"
    by (rule advances_quiet [of _ _ "[]"]) simp_all
  show ?thesis
    unfolding exec_def Some option.case
  proof (rule advances_and_then [OF 1])
    fix x h1 assume "exec_loop run q [] h = (Return x, h1)"
    with 1 have "advances P h h1" by simp
    then show "advances P h (snd (ret (VList x) ARRAY (h1\<lparr>transaction_queue := None\<rparr>)))"
      using 2 [of h1] by (simp add: ret_def advances_trans)
  qed
qed

lemma snd_except_redis: "snd (except_redis r) = snd r"
  by (induction r rule: except_redis.induct) simp_all

lemma adv_call_kls:
  assumes run: "\<And>h c a. advances is_getack h (snd (run h c a))"
  shows "advances is_getack h (snd (call_kls run k h a w))"
  by (cases k)
     (simp_all add: adv_ping adv_echo adv_set adv_get adv_increment adv_xadd adv_xrange
        adv_xread adv_multi adv_exec [OF run] adv_discard adv_config adv_keys adv_info
        adv_replconf adv_psync adv_wait adv_type)

lemma adv_execute_body:
  assumes run: "\<And>h c a. advances is_getack h (snd (run h c a))"
  shows "advances is_getack h (snd (execute_body run w et h c a))"
proof (cases "if et then None else transaction_queue h")
  case None
  show ?thesis
    unfolding execute_body_def None option.case
    by (intro advances_on_value advances_refl)
       (simp add: snd_except_redis adv_call_kls [OF run])
next
  case (Some q)
  have "advances is_getack h (h\<lparr>transaction_queue := Some (q @ [(c, a)])\<rparr>)"
    by (rule advances_quiet [of _ _ "[]"]) simp_all
  then show ?thesis
    unfolding execute_body_def Some option.case
    by (simp add: adv_exec [OF run] adv_discard ret_def)
qed

lemma adv_execute_inner: "advances is_getack h (snd (execute_inner d w et h c a))"
proof (induction d arbitrary: w et h c a)
  case 0
  then show ?case by (simp add: advances_refl)
next
  case (Suc d)
  show ?case
    unfolding execute_inner.simps
    by (rule adv_execute_body) (rule Suc.IH)
qed

lemma adv_execute: "advances is_getack h (snd (execute h c a w et))"
  unfolding execute_def
proof (rule advances_and_then [OF adv_execute_inner])
  fix x h1
  assume "execute_inner recursion_limit w et h c a = (Return x, h1)"
  with adv_execute_inner [of h recursion_limit w et c a] have "advances is_getack h h1" by simp
  then show "advances is_getack h
     (snd (case x of None \<Rightarrow> (Return None, h1)
           | Some rt \<Rightarrow> on_value (encode (fst rt) (snd rt)) h1 (\<lambda>s. (Return (Some s), h1))))"
    by (cases x) (auto intro!: advances_on_value)
qed

lemma is_write_frameI:
  "decode frm = Return dv \<Longrightarrow> get_command (fst dv) = Return ca \<Longrightarrow> fst ca \<in> {''set''} \<Longrightarrow>
   is_write_frame frm"
  by (simp add: is_write_frame_def)

lemma adv_handle_master_command:
  "advances (\<lambda>b. is_getack b \<or> is_write_frame b) h (snd (handle_master_command h frm w))"
  unfolding handle_master_command_def
proof (intro advances_on_value advances_refl advances_and_then)
  fix dv :: "resp \<times> nat" and ca :: "string \<times> pyargs"
  assume "decode frm = Return dv" and "get_command (fst dv) = Return ca"
  then show "advances (\<lambda>b. is_getack b \<or> is_write_frame b) h
      (snd (if fst ca \<in> {''set''} then write_to_replicas frm h else (Return (), h)))"
    by (auto simp: advances_refl intro!: adv_write_to_replicas is_write_frameI)
next
  fix dv :: "resp \<times> nat" and ca :: "string \<times> pyargs" and x :: unit and h1 :: handler
  assume "decode frm = Return dv" and "get_command (fst dv) = Return ca"
    and "(if fst ca \<in> {''set''} then write_to_replicas frm h else (Return (), h)) =
            (Return x, h1)"
  then have "advances (\<lambda>b. is_getack b \<or> is_write_frame b) h h1"
    using adv_write_to_replicas [of "\<lambda>b. is_getack b \<or> is_write_frame b" frm h]
      advances_refl [of "\<lambda>b. is_getack b \<or> is_write_frame b" h]
    by (auto split: if_splits intro: is_write_frameI)
  moreover have "advances (\<lambda>b. is_getack b \<or> is_write_frame b) h1
      (snd (execute h1 (fst ca) (snd ca) w False))"
    by (rule advances_mono [OF adv_execute]) simp
  ultimately show "advances (\<lambda>b. is_getack b \<or> is_write_frame b) h
      (snd (execute h1 (fst ca) (snd ca) w False))"
    by (rule advances_trans)
qed

subsection \<open>The replication offset of the master\<close>

lemma reachable_invariant:
  "reachable h \<Longrightarrow>
     \<not> is_replica h \<and> replication_offset h = Some (sent_bytes (effects h)) \<and>
     list_all (\<lambda>b. is_getack b \<or> is_write_frame b) (broadcasts (effects h))"
proof (induction rule: reachable.induct)
  case (start env rid glob rdb)
  then show ?case by (simp add: init_handler_def sent_bytes_def)
next
  case (world h t c f)
  then show ?case by simp
next
  case (call h command_data w p)
  then have m: "handle h command_data w p = handle_master_command h command_data w"
    by (simp add: handle_def)
  from adv_handle_master_command [of h command_data w]
  obtain es where es: "effects (snd (handle_master_command h command_data w)) = effects h @ es"
      "list_all (\<lambda>b. is_getack b \<or> is_write_frame b) (broadcasts es)"
      "replication_offset (snd (handle_master_command h command_data w)) =
         map_option (\<lambda>n. n + sent_bytes es) (replication_offset h)"
      "is_replica (snd (handle_master_command h command_data w)) = is_replica h"
    unfolding advances_def by blast
  with call.IH show ?case
    unfolding m by (simp add: sent_bytes_append broadcasts_append)
qed

text \<open>
  Claim C2, as amended. In every reachable state of the master the replication offset is
  the sum of the lengths of all frames handed to the registry's broadcast, and each of
  these frames is either a forwarded write command (a frame whose verb is in the
  broadcast set, which is SET alone) or the \<^verbatim>\<open>REPLCONF GETACK *\<close> frame that
  \<^verbatim>\<open>wait\<close> sends.
\<close>

theorem master_offset_is_broadcast_bytes:
  assumes "reachable h"
  shows "replication_offset h = Some (sent_bytes (effects h)) \<and>
         list_all (\<lambda>b. is_getack b \<or> is_write_frame b) (broadcasts (effects h))"
  using reachable_invariant [OF assms] by simp

lemma reachable_set_then_wait: "reachable set_then_wait"
  unfolding set_then_wait_def master0_def
  by (intro reachable.call reachable.start) (simp add: truthy_env_def)

text \<open>A witness of C2: the state after \<^verbatim>\<open>SET foo bar\<close> and \<^verbatim>\<open>WAIT 0 100\<close>.\<close>

theorem master_offset_is_broadcast_bytes_witness:
  "reachable set_then_wait \<and>
   replication_offset set_then_wait = Some (sent_bytes (effects set_then_wait)) \<and>
   list_all (\<lambda>b. is_getack b \<or> is_write_frame b) (broadcasts (effects set_then_wait)) \<and>
   sent_bytes (effects set_then_wait) = 68"
proof -
  have "sent_bytes (effects set_then_wait) = 68" by code_simp
  with reachable_set_then_wait master_offset_is_broadcast_bytes [OF reachable_set_then_wait]
  show ?thesis by simp
qed

text \<open>
  The claim C2 as stated fails in that state: the offset is 68, while the only forwarded
  write command has 31 bytes. The other 37 bytes are the \<^verbatim>\<open>REPLCONF GETACK *\<close> frame
  of \<^verbatim>\<open>WAIT\<close>, which is no write.
\<close>

theorem getack_advances_offset_counterexample:
  "reachable set_then_wait \<and>
   replication_offset set_then_wait = Some 68 \<and>
   forwarded_writes (effects set_then_wait) = [command_frame [''SET'', ''foo'', ''bar'']] \<and>
   int (sum_list (map length (forwarded_writes (effects set_then_wait)))) = 31"
proof -
  have "replication_offset set_then_wait = Some 68 \<and>
   forwarded_writes (effects set_then_wait) = [command_frame [''SET'', ''foo'', ''bar'']] \<and>
   int (sum_list (map length (forwarded_writes (effects set_then_wait)))) = 31"
    by code_simp
  with reachable_set_then_wait show ?thesis by blast
qed


subsection \<open>A SET on the master\<close>

lemma strings_of_map: "strings_of (map RStr xs) = Some xs"
  by (induction xs) simp_all

lemma get_command_array:
  "get_command (RArr (RStr verb # map RStr xs)) = Return (lower verb, ArgList xs)"
  by (simp add: get_command_def strings_of_map)

lemma execute_inner_top:
  "execute_inner recursion_limit w et h c a =
     execute_body (execute_inner 999 None True) w et h c a"
proof -
  have r: "recursion_limit = Suc 999" by (simp add: recursion_limit_def)
  show ?thesis by (subst r) (simp only: execute_inner.simps)
qed

lemma kls_set: "get_command_kls ''set'' = Return K_set"
  by (simp add: get_command_kls_def kls_map_def)





subsection \<open>A SET inside a transaction\<close>

lemma getack_frame_value:
  "getack_frame = Some (command_frame [''REPLCONF'', ''GETACK'', ''*''])"
  by code_simp

lemma decode_getack_frame:
  "decode (command_frame [''REPLCONF'', ''GETACK'', ''*'']) =
     Return (RArr [RStr ''REPLCONF'', RStr ''GETACK'', RStr ''*''], 37)"
  by code_simp

lemma set_frame_not_getack:
  assumes "decode frm = Return (RArr (RStr verb # rest), n)" and "lower verb = ''set''"
  shows "\<not> is_getack frm"
proof
  assume "is_getack frm"
  then have "frm = command_frame [''REPLCONF'', ''GETACK'', ''*'']"
    by (simp add: is_getack_def getack_frame_value)
  with assms(1) decode_getack_frame have "verb = ''REPLCONF''" by simp
  moreover have "lower ''REPLCONF'' = ''replconf''" by code_simp
  ultimately show False using assms(2) by simp
qed

lemma execute_queues:
  assumes "transaction_queue h = Some q" and "c \<noteq> ''exec''" and "c \<noteq> ''discard''"
  shows "execute h c a w False =
           (Return (Some (''+QUEUED'' @ CRLF)), h\<lparr>transaction_queue := Some (q @ [(c, a)])\<rparr>)"
  using assms
  by (simp add: execute_def execute_inner_top execute_body_def ret_def encode_def
      encode_simple_string_def)

lemma execute_inner_set_in_exec:
  "execute_inner 999 None True h ''set'' a = except_redis (set_cmd h a)"
proof -
  have r: "(999::nat) = Suc 998" by simp
  show ?thesis
    by (subst r, simp only: execute_inner.simps) (simp add: execute_body_def kls_set)
qed

lemma exec_single_set:
  assumes "transaction_queue h = Some [(''set'', ArgList [k, v])]"
  shows "snd (execute h ''exec'' a w False) =
           h\<lparr>db := db_set k v None (db h), effects := effects h @ [DbSet k v None],
             transaction_queue := None\<rparr>"
  using assms
  by (simp add: execute_def execute_inner_top execute_body_def exec_def
      execute_inner_set_in_exec set_cmd_def idx_def ret_def encode_def encode_array_def)

text \<open>
  Claim C8. On a master connection with an open transaction, a SET command is forwarded
  to the replicas at the moment it is queued: the reply is \<^verbatim>\<open>+QUEUED\<close>, the raw bytes
  have gone to every replica writer, the offset has grown by their length and the
  keyspace is untouched. During the later EXEC nothing is broadcast but the
  \<^verbatim>\<open>REPLCONF GETACK *\<close> frames of queued WAIT commands, and the SET frame is none of
  these; when the SET is all the queue holds, EXEC applies it to the keyspace and
  leaves the registry, the offset and the broadcasts as they are.
\<close>

theorem queued_set_forwarded_when_queued:
  assumes "decode frm = Return (RArr (RStr verb # map RStr args), n)"
    and "lower verb = ''set''"
    and "transaction_queue h = Some q"
    and "replication_offset h = Some off"
    and "decode frm' = Return (RArr (RStr e # map RStr xs), n')"
    and "lower e = ''exec''"
  shows "\<exists>h'. handle_master_command h frm w = (Return (Some (''+QUEUED'' @ CRLF)), h') \<and>
           effects h' = effects h @ [Broadcast frm] \<and>
           connection_registry h' = broadcast frm (connection_registry h) \<and>
           replication_offset h' = Some (off + int (length frm)) \<and>
           transaction_queue h' = Some (q @ [(''set'', ArgList args)]) \<and>
           db h' = db h \<and>
           \<not> is_getack frm \<and>
           advances is_getack h' (snd (handle_master_command h' frm' w')) \<and>
           (q = [] \<and> length args = 2 \<longrightarrow>
              snd (handle_master_command h' frm' w') =
                h'\<lparr>db := db_set (args ! 0) (args ! 1) None (db h'),
                   effects := effects h' @ [DbSet (args ! 0) (args ! 1) None],
                   transaction_queue := None\<rparr>)"
proof -
  let ?h1 = "h\<lparr>connection_registry := broadcast frm (connection_registry h),
                effects := effects h @ [Broadcast frm],
                replication_offset := Some (off + int (length frm))\<rparr>"
  let ?h' = "?h1\<lparr>transaction_queue := Some (q @ [(''set'', ArgList args)])\<rparr>"
  have g: "get_command (RArr (RStr verb # map RStr args)) = Return (''set'', ArgList args)"
    using get_command_array [of verb args] assms(2) by simp
  have wr: "write_to_replicas frm h = (Return (), ?h1)"
    using assms(4) by (simp add: write_to_replicas_def Let_def)
  have ex: "execute ?h1 ''set'' (ArgList args) w False = (Return (Some (''+QUEUED'' @ CRLF)), ?h')"
    by (rule execute_queues) (simp_all add: assms(3))
  have 1: "handle_master_command h frm w = (Return (Some (''+QUEUED'' @ CRLF)), ?h')"
    unfolding handle_master_command_def by (simp add: assms(1) g wr ex)
  have g': "get_command (RArr (RStr e # map RStr xs)) = Return (''exec'', ArgList xs)"
    using get_command_array [of e xs] assms(6) by simp
  have 2: "handle_master_command ?h' frm' w' = execute ?h' ''exec'' (ArgList xs) w' False"
    unfolding handle_master_command_def by (simp add: assms(5) g')
  have 3: "advances is_getack ?h' (snd (handle_master_command ?h' frm' w'))"
    unfolding 2 by (rule adv_execute)
  have 4: "snd (handle_master_command ?h' frm' w') =
                ?h'\<lparr>db := db_set (args ! 0) (args ! 1) None (db ?h'),
                   effects := effects ?h' @ [DbSet (args ! 0) (args ! 1) None],
                   transaction_queue := None\<rparr>"
    if "q = []" and "length args = 2"
  proof -
    from that(2) obtain k v where a: "args = [k, v]"
      by (cases args; cases "tl args") auto
    have "transaction_queue ?h' = Some [(''set'', ArgList [k, v])]"
      using that(1) a by simp
    from exec_single_set [OF this, of "ArgList xs" w'] show ?thesis
      unfolding 2 using a by simp
  qed
  have 5: "\<not> is_getack frm"
    using assms(1,2) by (rule set_frame_not_getack)
  show ?thesis
    apply (rule exI [of _ ?h'])
    using 1 3 4 5 by simp
qed


text \<open>A witness of C8: \<^verbatim>\<open>SET a 1\<close> inside a transaction on a fresh master, then \<^verbatim>\<open>EXEC\<close>.\<close>

theorem queued_set_forwarded_when_queued_witness:
  "\<exists>h'. handle_master_command (master0\<lparr>transaction_queue := Some []\<rparr>)
           (command_frame [''SET'', ''a'', ''1'']) (Some 1) =
             (Return (Some (''+QUEUED'' @ CRLF)), h') \<and>
        effects h' = [Broadcast (command_frame [''SET'', ''a'', ''1''])] \<and>
        replication_offset h' = Some 27 \<and>
        transaction_queue h' = Some [(''set'', ArgList [''a'', ''1''])] \<and>
        db h' = db master0 \<and>
        advances is_getack h' (snd (handle_master_command h' (command_frame [''EXEC'']) (Some 1))) \<and>
        snd (handle_master_command h' (command_frame [''EXEC'']) (Some 1)) =
          h'\<lparr>db := db_set ''a'' ''1'' None (db h'),
             effects := effects h' @ [DbSet ''a'' ''1'' None],
             transaction_queue := None\<rparr>"
proof -
  let ?h = "master0\<lparr>transaction_queue := Some []\<rparr>"
  have 1: "decode (command_frame [''SET'', ''a'', ''1'']) =
      Return (RArr (RStr ''SET'' # map RStr [''a'', ''1'']), 27)"
    by code_simp
  have 2: "lower ''SET'' = ''set''" by code_simp
  have 3: "transaction_queue ?h = Some []" by simp
  have 4: "replication_offset ?h = Some 0" by (simp add: master0_def init_handler_def truthy_env_def)
  have 5: "decode (command_frame [''EXEC'']) = Return (RArr (RStr ''EXEC'' # map RStr []), 14)"
    by code_simp
  have 6: "lower ''EXEC'' = ''exec''" by code_simp
  have 7: "effects ?h = []" by (simp add: master0_def init_handler_def)
  have 8: "length (command_frame [''SET'', ''a'', ''1'']) = 27" by code_simp
  from queued_set_forwarded_when_queued [OF 1 2 3 4 5 6, of "Some 1" "Some 1"]
  obtain h' where h': "handle_master_command ?h (command_frame [''SET'', ''a'', ''1'']) (Some 1) =
             (Return (Some (''+QUEUED'' @ CRLF)), h')"
      "effects h' = effects ?h @ [Broadcast (command_frame [''SET'', ''a'', ''1''])]"
      "replication_offset h' = Some (0 + int (length (command_frame [''SET'', ''a'', ''1''])))"
      "transaction_queue h' = Some ([] @ [(''set'', ArgList [''a'', ''1''])])"
      "db h' = db ?h"
      "advances is_getack h' (snd (handle_master_command h' (command_frame [''EXEC'']) (Some 1)))"
      "snd (handle_master_command h' (command_frame [''EXEC'']) (Some 1)) =
          h'\<lparr>db := db_set ([''a'', ''1''] ! 0) ([''a'', ''1''] ! 1) None (db h'),
             effects := effects h' @ [DbSet ([''a'', ''1''] ! 0) ([''a'', ''1''] ! 1) None],
             transaction_queue := None\<rparr>"
    by auto
  show ?thesis
    apply (rule exI [of _ h'])
    using h' 7 8 by simp
qed

subsection \<open>The replica's byte counter\<close>

lemma bytes_execute: "bytes_processed (snd (execute h c a w et)) = bytes_processed h"
  using adv_execute [of h c a w et] unfolding advances_def by auto

lemma replica_loop_append:
  "replica_loop p (xs @ ys) rs h =
     and_then (replica_loop p xs rs h) (\<lambda>rs' h'. replica_loop p ys rs' h')"
proof (induction xs arbitrary: rs h)
  case Nil
  then show ?case by simp
next
  case (Cons cl xs)
  show ?case
  proof (cases "get_command (fst cl)")
    case (Return ca)
    obtain v h1 where e: "execute h (fst ca) (snd ca) None False = (v, h1)"
      by (cases "execute h (fst ca) (snd ca) None False")
    show ?thesis
      using Return e Cons.IH by (cases v) simp_all
  qed simp_all
qed

lemma replica_loop_bytes:
  "replica_loop p cmds rs h = (Return rs', h') \<Longrightarrow>
     bytes_processed h' = bytes_processed h + sum_list (map (\<lambda>c. int (snd c)) cmds)"
proof (induction cmds arbitrary: rs h)
  case Nil
  then show ?case by simp
next
  case (Cons cl cmds)
  from Cons.prems obtain ca where g: "get_command (fst cl) = Return ca"
    by (cases "get_command (fst cl)") simp_all
  obtain v h1 where e: "execute h (fst ca) (snd ca) None False = (v, h1)"
    by (cases "execute h (fst ca) (snd ca) None False")
  from Cons.prems g e obtain x where v: "v = Return x"
    by (cases v) simp_all
  from bytes_execute [of h "fst ca" "snd ca" None False] e
  have b: "bytes_processed h1 = bytes_processed h" by simp
  from Cons.prems g e v have
    "replica_loop p cmds
       (if \<not> p \<or> fst ca \<in> {''replconf''} then rs @ [x] else rs)
       (h1\<lparr>bytes_processed := bytes_processed h1 + int (snd cl)\<rparr>) = (Return rs', h')"
    by simp
  from Cons.IH [OF this] b show ?case by simp
qed

lemma kls_replconf: "get_command_kls ''replconf'' = Return K_replconf"
  by (simp add: get_command_kls_def kls_map_def)

lemma execute_getack:
  assumes "transaction_queue h = None" and "lower g = ''getack''"
  shows "execute h ''replconf'' (ArgList (g # xs)) w False =
           (Return (Some (''*3'' @ CRLF @ encode_bulk_string (Some ''REPLCONF'') @
                          encode_bulk_string (Some ''ACK'') @
                          encode_bulk_string (Some (py_str (bytes_processed h))))), h)"
proof -
  have s: "show_nat (Suc (Suc (Suc 0))) = ''3''" by code_simp
  show ?thesis
    using assms
    by (simp add: execute_def execute_inner_top execute_body_def kls_replconf replconf_def
        replconf_getack_def ret_def encode_def encode_array_def s)
qed

text \<open>
  Claim C9. When the buffer a replica receives ends with \<^verbatim>\<open>REPLCONF GETACK\<close>, and the
  commands before it have run, then the byte counter at that point is the counter at
  entry plus the lengths of these commands, the acknowledgement carries exactly this
  value, without the length of the GETACK command, and the counter grows by that
  length only after the reply has been produced.
\<close>

theorem getack_reply_excludes_itself:
  assumes "multi_command_decoder buf = Return (cmds @ [(RArr (RStr r # RStr g # map RStr xs), n)])"
    and "replica_loop p cmds [] h = (Return rs, h1)"
    and "None \<notin> set rs"
    and "transaction_queue h1 = None"
    and "lower r = ''replconf''"
    and "lower g = ''getack''"
  shows "bytes_processed h1 = bytes_processed h + sum_list (map (\<lambda>c. int (snd c)) cmds) \<and>
         handle_replica h buf p =
           (Return (Some (concat (map the rs) @
              ''*3'' @ CRLF @ encode_bulk_string (Some ''REPLCONF'') @
              encode_bulk_string (Some ''ACK'') @
              encode_bulk_string (Some (py_str (bytes_processed h1))))),
            h1\<lparr>bytes_processed := bytes_processed h1 + int n\<rparr>)"
proof -
  have b: "bytes_processed h1 = bytes_processed h + sum_list (map (\<lambda>c. int (snd c)) cmds)"
    using assms(2) by (rule replica_loop_bytes)
  have g: "get_command (RArr (RStr r # RStr g # map RStr xs)) = Return (''replconf'', ArgList (g # xs))"
    using get_command_array [of r "g # xs"] assms(5) by simp
  have l: "replica_loop p (cmds @ [(RArr (RStr r # RStr g # map RStr xs), n)]) [] h =
        (Return (rs @ [Some (''*3'' @ CRLF @ encode_bulk_string (Some ''REPLCONF'') @
              encode_bulk_string (Some ''ACK'') @
              encode_bulk_string (Some (py_str (bytes_processed h1))))]),
         h1\<lparr>bytes_processed := bytes_processed h1 + int n\<rparr>)"
    unfolding replica_loop_append assms(2)
    by (simp add: g execute_getack [OF assms(4) assms(6)])
  have "handle_replica h buf p =
           (Return (Some (concat (map the rs) @
              ''*3'' @ CRLF @ encode_bulk_string (Some ''REPLCONF'') @
              encode_bulk_string (Some ''ACK'') @
              encode_bulk_string (Some (py_str (bytes_processed h1))))),
            h1\<lparr>bytes_processed := bytes_processed h1 + int n\<rparr>)"
    unfolding handle_replica_def assms(1)
    using assms(3) by (simp add: l join_responses_def)
  with b show ?thesis by simp
qed


text \<open>
  A witness of C9: a replica receives \<^verbatim>\<open>SET foo bar\<close> (31 bytes) and
  \<^verbatim>\<open>REPLCONF GETACK *\<close> (37 bytes) in one buffer; it acknowledges 31 and then counts 68.
\<close>

theorem getack_reply_excludes_itself_witness:
  "fst (handle_replica replica0
          (command_frame [''SET'', ''foo'', ''bar''] @ command_frame [''REPLCONF'', ''GETACK'', ''*''])
          True) =
     Return (Some (command_frame [''REPLCONF'', ''ACK'', ''31''])) \<and>
   bytes_processed (snd (handle_replica replica0
          (command_frame [''SET'', ''foo'', ''bar''] @ command_frame [''REPLCONF'', ''GETACK'', ''*''])
          True)) = 68"
proof -
  let ?buf = "command_frame [''SET'', ''foo'', ''bar''] @ command_frame [''REPLCONF'', ''GETACK'', ''*'']"
  let ?cmds = "[(RArr [RStr ''SET'', RStr ''foo'', RStr ''bar''], 31::nat)]"
  define h1 where "h1 = snd (replica_loop True ?cmds [] replica0)"
  have 1: "multi_command_decoder ?buf =
      Return (?cmds @ [(RArr (RStr ''REPLCONF'' # RStr ''GETACK'' # map RStr [''*'']), 37)])"
    by code_simp
  have "fst (replica_loop True ?cmds [] replica0) = Return []" by code_simp
  then have 2: "replica_loop True ?cmds [] replica0 = (Return [], h1)"
    by (simp add: h1_def prod_eq_iff)
  have 3: "None \<notin> set ([] :: string option list)" by simp
  have 4: "transaction_queue h1 = None" unfolding h1_def by code_simp
  have 5: "lower ''REPLCONF'' = ''replconf''" by code_simp
  have 6: "lower ''GETACK'' = ''getack''" by code_simp
  have 7: "bytes_processed replica0 = 0" by (simp add: replica0_def init_handler_def)
  have 8: "''*3'' @ CRLF @ encode_bulk_string (Some ''REPLCONF'') @
              encode_bulk_string (Some ''ACK'') @ encode_bulk_string (Some (py_str 31)) =
           command_frame [''REPLCONF'', ''ACK'', ''31'']"
    by code_simp
  from getack_reply_excludes_itself [OF 1 2 3 4 5 6] 7 8 show ?thesis
    by simp
qed

subsection \<open>Stream identifiers\<close>







subsection \<open>Decimal numbers\<close>
















subsection \<open>The start id \<^verbatim>\<open>$\<close>\<close>

lemma xread_args_lengths:
  assumes "xread_args now a = Return (blk, keys, ids)"
  shows "length keys = length ids"
  using assms unfolding xread_args_def Let_def
  by (auto split: pyargs.splits option.splits outcome.splits if_splits)

lemma resolve_ids_length: "resolve_ids d keys i ids = Return sids \<Longrightarrow> length sids = length ids"
  by (induction ids arbitrary: i sids) (auto split: outcome.splits if_splits option.splits val.splits)





subsection \<open>Keys with upper-case letters\<close>














end
